theory Spec2Isabelle
  imports Main
begin

section \<open>Python strings\<close>

text \<open>
  A Python \<open>str\<close> is a sequence of Unicode code points, and \<open>len\<close>, \<open>in\<close> and the
  regular expressions of \<open>norm_name.py\<close> all count code points. A character is therefore
  modelled by its code point and a string by the list of its code points. ASCII text is
  written with \<open>asc\<close>; the CJK characters of the source are written by code point, with
  the character named in a comment.
\<close>

type_synonym uchar = nat
type_synonym ustr = "uchar list"

definition asc :: "string \<Rightarrow> ustr" where
  "asc s = map of_char s"

datatype error = ValueError | KeyError | AttributeError

subsection \<open>Character classes of the interpreter\<close>

text \<open>
  \<open>str.isspace\<close>, \<open>str.strip()\<close> and the regular expression class \<open>\s\<close> share one
  set of code points in CPython.
\<close>

definition isspace :: "uchar \<Rightarrow> bool" where
  "isspace c \<longleftrightarrow>
     (9 \<le> c \<and> c \<le> 13) \<or> (28 \<le> c \<and> c \<le> 32) \<or> c = 0x85 \<or> c = 0xA0 \<or> c = 0x1680 \<or>
     (0x2000 \<le> c \<and> c \<le> 0x200A) \<or> c = 0x2028 \<or> c = 0x2029 \<or> c = 0x202F \<or>
     c = 0x205F \<or> c = 0x3000"

definition strip :: "ustr \<Rightarrow> ustr" where
  "strip s = rev (dropWhile isspace (rev (dropWhile isspace s)))"

text \<open>
  The decimal digits (general category Nd, the class \<open>\d\<close>, the characters \<open>int\<close>
  accepts) come in runs of ten consecutive code points with the values 0 to 9; the list
  gives the first code point of every run of Unicode 14.0. \<open>str.isdigit\<close> accepts, on top
  of them, the characters of numeric type Digit (superscripts, circled digits), which
  \<open>int\<close> rejects.
\<close>

definition nd_starts :: "nat list" where
  "nd_starts =
    [0x30, 0x660, 0x6F0, 0x7C0, 0x966, 0x9E6, 0xA66, 0xAE6, 0xB66, 0xBE6, 0xC66, 0xCE6,
     0xD66, 0xDE6, 0xE50, 0xED0, 0xF20, 0x1040, 0x1090, 0x17E0, 0x1810, 0x1946, 0x19D0,
     0x1A80, 0x1A90, 0x1B50, 0x1BB0, 0x1C40, 0x1C50, 0xA620, 0xA8D0, 0xA900, 0xA9D0,
     0xA9F0, 0xAA50, 0xABF0, 0xFF10, 0x104A0, 0x10D30, 0x11066, 0x110F0, 0x11136,
     0x111D0, 0x112F0, 0x11450, 0x114D0, 0x11650, 0x116C0, 0x11730, 0x118E0, 0x11950,
     0x11C50, 0x11D50, 0x11DA0, 0x16A60, 0x16AC0, 0x16B50, 0x1D7CE, 0x1D7D8, 0x1D7E2,
     0x1D7EC, 0x1D7F6, 0x1E140, 0x1E2F0, 0x1E950, 0x1FBF0]"

definition decimal_value :: "uchar \<Rightarrow> nat option" where
  "decimal_value c =
     (case filter (\<lambda>s. s \<le> c \<and> c < s + 10) nd_starts of
        [] \<Rightarrow> None
      | s # _ \<Rightarrow> Some (c - s))"

definition digit_only_ranges :: "(nat \<times> nat) list" where
  "digit_only_ranges =
    [(0xB2, 0xB3), (0xB9, 0xB9), (0x1369, 0x1371), (0x19DA, 0x19DA), (0x2070, 0x2070),
     (0x2074, 0x2079), (0x2080, 0x2089), (0x2460, 0x2468), (0x2474, 0x247C),
     (0x2488, 0x2490), (0x24EA, 0x24EA), (0x24F5, 0x24FD), (0x24FF, 0x24FF),
     (0x2776, 0x277E), (0x2780, 0x2788), (0x278A, 0x2792), (0x10A40, 0x10A43),
     (0x10E60, 0x10E68), (0x11052, 0x1105A), (0x1F100, 0x1F10A)]"

definition isdigit_char :: "uchar \<Rightarrow> bool" where
  "isdigit_char c \<longleftrightarrow>
     decimal_value c \<noteq> None \<or> list_ex (\<lambda>(lo, hi). lo \<le> c \<and> c \<le> hi) digit_only_ranges"

text \<open>\<open>s.isdigit()\<close>: at least one character, and every character a digit.\<close>

definition isdigit :: "ustr \<Rightarrow> bool" where
  "isdigit s \<longleftrightarrow> s \<noteq> [] \<and> list_all isdigit_char s"

text \<open>
  \<open>int(s)\<close> on a string that passed \<open>isdigit\<close> (no sign, no blank, no underscore):
  the decimal value, or \<open>ValueError\<close> at the first character that is not a decimal
  digit. Python's integers are unbounded; the interpreter's configurable limit on the
  number of digits is not part of the model.
\<close>

fun int_digits :: "int \<Rightarrow> ustr \<Rightarrow> error + int" where
  "int_digits acc [] = Inr acc"
| "int_digits acc (c # cs) =
     (case decimal_value c of
        None \<Rightarrow> Inl ValueError
      | Some d \<Rightarrow> int_digits (10 * acc + int d) cs)"

definition py_int :: "ustr \<Rightarrow> error + int" where
  "py_int s = int_digits 0 s"

text \<open>\<open>str(n)\<close> of an integer.\<close>

fun str_nat :: "nat \<Rightarrow> ustr" where
  "str_nat n = (if n < 10 then [48 + n] else str_nat (n div 10) @ [48 + n mod 10])"

declare str_nat.simps [simp del]

definition str_int :: "int \<Rightarrow> ustr" where
  "str_int n = (if n < 0 then 45 # str_nat (nat (- n)) else str_nat (nat n))"

text \<open>\<open>d[k]\<close> on a dictionary given by its items.\<close>

definition dict_get :: "('k \<times> 'v) list \<Rightarrow> 'k \<Rightarrow> error + 'v" where
  "dict_get d k = (case map_of d k of None \<Rightarrow> Inl KeyError | Some v \<Rightarrow> Inr v)"

subsection \<open>Case mappings of the interpreter\<close>

text \<open>
  \<open>str.lower\<close> and \<open>str.casefold\<close> follow the case tables of Unicode, here those of
  Unicode 14.0 (CPython 3.11). An entry \<open>(lo, hi, step, t)\<close> of a table maps the code
  points \<open>lo\<close>, \<open>lo + step\<close>, and so on up to \<open>hi\<close>, to \<open>t\<close>, \<open>t + step\<close>, and so on;
  a code point that no entry covers is kept.
\<close>

definition case_lookup :: "(nat \<times> nat \<times> nat \<times> nat) list \<Rightarrow> uchar \<Rightarrow> uchar option" where
  "case_lookup tab c =
     (case find (\<lambda>(lo, hi, step, t). lo \<le> c \<and> c \<le> hi \<and> (c - lo) mod step = 0) tab of
        None \<Rightarrow> None
      | Some (lo, hi, step, t) \<Rightarrow> Some (t + (c - lo)))"

definition in_ranges :: "(nat \<times> nat) list \<Rightarrow> uchar \<Rightarrow> bool" where
  "in_ranges tab c \<longleftrightarrow> list_ex (\<lambda>(lo, hi). lo \<le> c \<and> c \<le> hi) tab"

definition lower_ranges :: "(nat \<times> nat \<times> nat \<times> nat) list" where
  "lower_ranges =
    [
     (0x41, 0x5A, 1, 0x61), (0xC0, 0xD6, 1, 0xE0), (0xD8, 0xDE, 1, 0xF8),
     (0x100, 0x12E, 2, 0x101), (0x132, 0x136, 2, 0x133), (0x139, 0x147, 2, 0x13A),
     (0x14A, 0x176, 2, 0x14B), (0x178, 0x178, 1, 0xFF), (0x179, 0x17D, 2, 0x17A),
     (0x181, 0x181, 1, 0x253), (0x182, 0x184, 2, 0x183), (0x186, 0x186, 1, 0x254),
     (0x187, 0x187, 1, 0x188), (0x189, 0x18A, 1, 0x256), (0x18B, 0x18B, 1, 0x18C),
     (0x18E, 0x18E, 1, 0x1DD), (0x18F, 0x18F, 1, 0x259), (0x190, 0x190, 1, 0x25B),
     (0x191, 0x191, 1, 0x192), (0x193, 0x193, 1, 0x260), (0x194, 0x194, 1, 0x263),
     (0x196, 0x196, 1, 0x269), (0x197, 0x197, 1, 0x268), (0x198, 0x198, 1, 0x199),
     (0x19C, 0x19C, 1, 0x26F), (0x19D, 0x19D, 1, 0x272), (0x19F, 0x19F, 1, 0x275),
     (0x1A0, 0x1A4, 2, 0x1A1), (0x1A6, 0x1A6, 1, 0x280), (0x1A7, 0x1A7, 1, 0x1A8),
     (0x1A9, 0x1A9, 1, 0x283), (0x1AC, 0x1AC, 1, 0x1AD), (0x1AE, 0x1AE, 1, 0x288),
     (0x1AF, 0x1AF, 1, 0x1B0), (0x1B1, 0x1B2, 1, 0x28A), (0x1B3, 0x1B5, 2, 0x1B4),
     (0x1B7, 0x1B7, 1, 0x292), (0x1B8, 0x1B8, 1, 0x1B9), (0x1BC, 0x1BC, 1, 0x1BD),
     (0x1C4, 0x1C4, 1, 0x1C6), (0x1C5, 0x1C5, 1, 0x1C6), (0x1C7, 0x1C7, 1, 0x1C9),
     (0x1C8, 0x1C8, 1, 0x1C9), (0x1CA, 0x1CA, 1, 0x1CC), (0x1CB, 0x1DB, 2, 0x1CC),
     (0x1DE, 0x1EE, 2, 0x1DF), (0x1F1, 0x1F1, 1, 0x1F3), (0x1F2, 0x1F4, 2, 0x1F3),
     (0x1F6, 0x1F6, 1, 0x195), (0x1F7, 0x1F7, 1, 0x1BF), (0x1F8, 0x21E, 2, 0x1F9),
     (0x220, 0x220, 1, 0x19E), (0x222, 0x232, 2, 0x223), (0x23A, 0x23A, 1, 0x2C65),
     (0x23B, 0x23B, 1, 0x23C), (0x23D, 0x23D, 1, 0x19A), (0x23E, 0x23E, 1, 0x2C66),
     (0x241, 0x241, 1, 0x242), (0x243, 0x243, 1, 0x180), (0x244, 0x244, 1, 0x289),
     (0x245, 0x245, 1, 0x28C), (0x246, 0x24E, 2, 0x247), (0x370, 0x372, 2, 0x371),
     (0x376, 0x376, 1, 0x377), (0x37F, 0x37F, 1, 0x3F3), (0x386, 0x386, 1, 0x3AC),
     (0x388, 0x38A, 1, 0x3AD), (0x38C, 0x38C, 1, 0x3CC), (0x38E, 0x38F, 1, 0x3CD),
     (0x391, 0x3A1, 1, 0x3B1), (0x3A3, 0x3AB, 1, 0x3C3), (0x3CF, 0x3CF, 1, 0x3D7),
     (0x3D8, 0x3EE, 2, 0x3D9), (0x3F4, 0x3F4, 1, 0x3B8), (0x3F7, 0x3F7, 1, 0x3F8),
     (0x3F9, 0x3F9, 1, 0x3F2), (0x3FA, 0x3FA, 1, 0x3FB), (0x3FD, 0x3FF, 1, 0x37B),
     (0x400, 0x40F, 1, 0x450), (0x410, 0x42F, 1, 0x430), (0x460, 0x480, 2, 0x461),
     (0x48A, 0x4BE, 2, 0x48B), (0x4C0, 0x4C0, 1, 0x4CF), (0x4C1, 0x4CD, 2, 0x4C2),
     (0x4D0, 0x52E, 2, 0x4D1), (0x531, 0x556, 1, 0x561), (0x10A0, 0x10C5, 1, 0x2D00),
     (0x10C7, 0x10C7, 1, 0x2D27), (0x10CD, 0x10CD, 1, 0x2D2D),
     (0x13A0, 0x13EF, 1, 0xAB70), (0x13F0, 0x13F5, 1, 0x13F8),
     (0x1C90, 0x1CBA, 1, 0x10D0), (0x1CBD, 0x1CBF, 1, 0x10FD),
     (0x1E00, 0x1E94, 2, 0x1E01), (0x1E9E, 0x1E9E, 1, 0xDF), (0x1EA0, 0x1EFE, 2, 0x1EA1),
     (0x1F08, 0x1F0F, 1, 0x1F00), (0x1F18, 0x1F1D, 1, 0x1F10),
     (0x1F28, 0x1F2F, 1, 0x1F20), (0x1F38, 0x1F3F, 1, 0x1F30),
     (0x1F48, 0x1F4D, 1, 0x1F40), (0x1F59, 0x1F5F, 2, 0x1F51),
     (0x1F68, 0x1F6F, 1, 0x1F60), (0x1F88, 0x1F8F, 1, 0x1F80),
     (0x1F98, 0x1F9F, 1, 0x1F90), (0x1FA8, 0x1FAF, 1, 0x1FA0),
     (0x1FB8, 0x1FB9, 1, 0x1FB0), (0x1FBA, 0x1FBB, 1, 0x1F70),
     (0x1FBC, 0x1FBC, 1, 0x1FB3), (0x1FC8, 0x1FCB, 1, 0x1F72),
     (0x1FCC, 0x1FCC, 1, 0x1FC3), (0x1FD8, 0x1FD9, 1, 0x1FD0),
     (0x1FDA, 0x1FDB, 1, 0x1F76), (0x1FE8, 0x1FE9, 1, 0x1FE0),
     (0x1FEA, 0x1FEB, 1, 0x1F7A), (0x1FEC, 0x1FEC, 1, 0x1FE5),
     (0x1FF8, 0x1FF9, 1, 0x1F78), (0x1FFA, 0x1FFB, 1, 0x1F7C),
     (0x1FFC, 0x1FFC, 1, 0x1FF3), (0x2126, 0x2126, 1, 0x3C9), (0x212A, 0x212A, 1, 0x6B),
     (0x212B, 0x212B, 1, 0xE5), (0x2132, 0x2132, 1, 0x214E), (0x2160, 0x216F, 1, 0x2170),
     (0x2183, 0x2183, 1, 0x2184), (0x24B6, 0x24CF, 1, 0x24D0),
     (0x2C00, 0x2C2F, 1, 0x2C30), (0x2C60, 0x2C60, 1, 0x2C61),
     (0x2C62, 0x2C62, 1, 0x26B), (0x2C63, 0x2C63, 1, 0x1D7D), (0x2C64, 0x2C64, 1, 0x27D),
     (0x2C67, 0x2C6B, 2, 0x2C68), (0x2C6D, 0x2C6D, 1, 0x251), (0x2C6E, 0x2C6E, 1, 0x271),
     (0x2C6F, 0x2C6F, 1, 0x250), (0x2C70, 0x2C70, 1, 0x252), (0x2C72, 0x2C72, 1, 0x2C73),
     (0x2C75, 0x2C75, 1, 0x2C76), (0x2C7E, 0x2C7F, 1, 0x23F),
     (0x2C80, 0x2CE2, 2, 0x2C81), (0x2CEB, 0x2CED, 2, 0x2CEC),
     (0x2CF2, 0x2CF2, 1, 0x2CF3), (0xA640, 0xA66C, 2, 0xA641),
     (0xA680, 0xA69A, 2, 0xA681), (0xA722, 0xA72E, 2, 0xA723),
     (0xA732, 0xA76E, 2, 0xA733), (0xA779, 0xA77B, 2, 0xA77A),
     (0xA77D, 0xA77D, 1, 0x1D79), (0xA77E, 0xA786, 2, 0xA77F),
     (0xA78B, 0xA78B, 1, 0xA78C), (0xA78D, 0xA78D, 1, 0x265),
     (0xA790, 0xA792, 2, 0xA791), (0xA796, 0xA7A8, 2, 0xA797),
     (0xA7AA, 0xA7AA, 1, 0x266), (0xA7AB, 0xA7AB, 1, 0x25C), (0xA7AC, 0xA7AC, 1, 0x261),
     (0xA7AD, 0xA7AD, 1, 0x26C), (0xA7AE, 0xA7AE, 1, 0x26A), (0xA7B0, 0xA7B0, 1, 0x29E),
     (0xA7B1, 0xA7B1, 1, 0x287), (0xA7B2, 0xA7B2, 1, 0x29D), (0xA7B3, 0xA7B3, 1, 0xAB53),
     (0xA7B4, 0xA7C2, 2, 0xA7B5), (0xA7C4, 0xA7C4, 1, 0xA794),
     (0xA7C5, 0xA7C5, 1, 0x282), (0xA7C6, 0xA7C6, 1, 0x1D8E),
     (0xA7C7, 0xA7C9, 2, 0xA7C8), (0xA7D0, 0xA7D0, 1, 0xA7D1),
     (0xA7D6, 0xA7D8, 2, 0xA7D7), (0xA7F5, 0xA7F5, 1, 0xA7F6),
     (0xFF21, 0xFF3A, 1, 0xFF41), (0x10400, 0x10427, 1, 0x10428),
     (0x104B0, 0x104D3, 1, 0x104D8), (0x10570, 0x1057A, 1, 0x10597),
     (0x1057C, 0x1058A, 1, 0x105A3), (0x1058C, 0x10592, 1, 0x105B3),
     (0x10594, 0x10595, 1, 0x105BB), (0x10C80, 0x10CB2, 1, 0x10CC0),
     (0x118A0, 0x118BF, 1, 0x118C0), (0x16E40, 0x16E5F, 1, 0x16E60),
     (0x1E900, 0x1E921, 1, 0x1E922)]"

text \<open>
  The lowercase of one code point: U+0130 gives two code points, every other one gives
  one.
\<close>

definition lower_char :: "uchar \<Rightarrow> ustr" where
  "lower_char c =
     (if c = 0x130 then [0x69, 0x307]
      else (case case_lookup lower_ranges c of None \<Rightarrow> [c] | Some t \<Rightarrow> [t]))"

text \<open>
  The capital sigma U+03A3 is lowered by its context. The code points with the property
  \<open>Case_Ignorable\<close>, and those with the property \<open>Cased\<close>:
\<close>

definition case_ignorable_ranges :: "(nat \<times> nat) list" where
  "case_ignorable_ranges =
    [
     (0x27, 0x27), (0x2E, 0x2E), (0x3A, 0x3A), (0x5E, 0x5E), (0x60, 0x60), (0xA8, 0xA8),
     (0xAD, 0xAD), (0xAF, 0xAF), (0xB4, 0xB4), (0xB7, 0xB8), (0x2B0, 0x36F),
     (0x374, 0x375), (0x37A, 0x37A), (0x384, 0x385), (0x387, 0x387), (0x483, 0x489),
     (0x559, 0x559), (0x55F, 0x55F), (0x591, 0x5BD), (0x5BF, 0x5BF), (0x5C1, 0x5C2),
     (0x5C4, 0x5C5), (0x5C7, 0x5C7), (0x5F4, 0x5F4), (0x600, 0x605), (0x610, 0x61A),
     (0x61C, 0x61C), (0x640, 0x640), (0x64B, 0x65F), (0x670, 0x670), (0x6D6, 0x6DD),
     (0x6DF, 0x6E8), (0x6EA, 0x6ED), (0x70F, 0x70F), (0x711, 0x711), (0x730, 0x74A),
     (0x7A6, 0x7B0), (0x7EB, 0x7F5), (0x7FA, 0x7FA), (0x7FD, 0x7FD), (0x816, 0x82D),
     (0x859, 0x85B), (0x888, 0x888), (0x890, 0x891), (0x898, 0x89F), (0x8C9, 0x902),
     (0x93A, 0x93A), (0x93C, 0x93C), (0x941, 0x948), (0x94D, 0x94D), (0x951, 0x957),
     (0x962, 0x963), (0x971, 0x971), (0x981, 0x981), (0x9BC, 0x9BC), (0x9C1, 0x9C4),
     (0x9CD, 0x9CD), (0x9E2, 0x9E3), (0x9FE, 0x9FE), (0xA01, 0xA02), (0xA3C, 0xA3C),
     (0xA41, 0xA42), (0xA47, 0xA48), (0xA4B, 0xA4D), (0xA51, 0xA51), (0xA70, 0xA71),
     (0xA75, 0xA75), (0xA81, 0xA82), (0xABC, 0xABC), (0xAC1, 0xAC5), (0xAC7, 0xAC8),
     (0xACD, 0xACD), (0xAE2, 0xAE3), (0xAFA, 0xAFF), (0xB01, 0xB01), (0xB3C, 0xB3C),
     (0xB3F, 0xB3F), (0xB41, 0xB44), (0xB4D, 0xB4D), (0xB55, 0xB56), (0xB62, 0xB63),
     (0xB82, 0xB82), (0xBC0, 0xBC0), (0xBCD, 0xBCD), (0xC00, 0xC00), (0xC04, 0xC04),
     (0xC3C, 0xC3C), (0xC3E, 0xC40), (0xC46, 0xC48), (0xC4A, 0xC4D), (0xC55, 0xC56),
     (0xC62, 0xC63), (0xC81, 0xC81), (0xCBC, 0xCBC), (0xCBF, 0xCBF), (0xCC6, 0xCC6),
     (0xCCC, 0xCCD), (0xCE2, 0xCE3), (0xD00, 0xD01), (0xD3B, 0xD3C), (0xD41, 0xD44),
     (0xD4D, 0xD4D), (0xD62, 0xD63), (0xD81, 0xD81), (0xDCA, 0xDCA), (0xDD2, 0xDD4),
     (0xDD6, 0xDD6), (0xE31, 0xE31), (0xE34, 0xE3A), (0xE46, 0xE4E), (0xEB1, 0xEB1),
     (0xEB4, 0xEBC), (0xEC6, 0xEC6), (0xEC8, 0xECD), (0xF18, 0xF19), (0xF35, 0xF35),
     (0xF37, 0xF37), (0xF39, 0xF39), (0xF71, 0xF7E), (0xF80, 0xF84), (0xF86, 0xF87),
     (0xF8D, 0xF97), (0xF99, 0xFBC), (0xFC6, 0xFC6), (0x102D, 0x1030), (0x1032, 0x1037),
     (0x1039, 0x103A), (0x103D, 0x103E), (0x1058, 0x1059), (0x105E, 0x1060),
     (0x1071, 0x1074), (0x1082, 0x1082), (0x1085, 0x1086), (0x108D, 0x108D),
     (0x109D, 0x109D), (0x10FC, 0x10FC), (0x135D, 0x135F), (0x1712, 0x1714),
     (0x1732, 0x1733), (0x1752, 0x1753), (0x1772, 0x1773), (0x17B4, 0x17B5),
     (0x17B7, 0x17BD), (0x17C6, 0x17C6), (0x17C9, 0x17D3), (0x17D7, 0x17D7),
     (0x17DD, 0x17DD), (0x180B, 0x180F), (0x1843, 0x1843), (0x1885, 0x1886),
     (0x18A9, 0x18A9), (0x1920, 0x1922), (0x1927, 0x1928), (0x1932, 0x1932),
     (0x1939, 0x193B), (0x1A17, 0x1A18), (0x1A1B, 0x1A1B), (0x1A56, 0x1A56),
     (0x1A58, 0x1A5E), (0x1A60, 0x1A60), (0x1A62, 0x1A62), (0x1A65, 0x1A6C),
     (0x1A73, 0x1A7C), (0x1A7F, 0x1A7F), (0x1AA7, 0x1AA7), (0x1AB0, 0x1ACE),
     (0x1B00, 0x1B03), (0x1B34, 0x1B34), (0x1B36, 0x1B3A), (0x1B3C, 0x1B3C),
     (0x1B42, 0x1B42), (0x1B6B, 0x1B73), (0x1B80, 0x1B81), (0x1BA2, 0x1BA5),
     (0x1BA8, 0x1BA9), (0x1BAB, 0x1BAD), (0x1BE6, 0x1BE6), (0x1BE8, 0x1BE9),
     (0x1BED, 0x1BED), (0x1BEF, 0x1BF1), (0x1C2C, 0x1C33), (0x1C36, 0x1C37),
     (0x1C78, 0x1C7D), (0x1CD0, 0x1CD2), (0x1CD4, 0x1CE0), (0x1CE2, 0x1CE8),
     (0x1CED, 0x1CED), (0x1CF4, 0x1CF4), (0x1CF8, 0x1CF9), (0x1D2C, 0x1D6A),
     (0x1D78, 0x1D78), (0x1D9B, 0x1DFF), (0x1FBD, 0x1FBD), (0x1FBF, 0x1FC1),
     (0x1FCD, 0x1FCF), (0x1FDD, 0x1FDF), (0x1FED, 0x1FEF), (0x1FFD, 0x1FFE),
     (0x200B, 0x200F), (0x2018, 0x2019), (0x2024, 0x2024), (0x2027, 0x2027),
     (0x202A, 0x202E), (0x2060, 0x2064), (0x2066, 0x206F), (0x2071, 0x2071),
     (0x207F, 0x207F), (0x2090, 0x209C), (0x20D0, 0x20F0), (0x2C7C, 0x2C7D),
     (0x2CEF, 0x2CF1), (0x2D6F, 0x2D6F), (0x2D7F, 0x2D7F), (0x2DE0, 0x2DFF),
     (0x2E2F, 0x2E2F), (0x3005, 0x3005), (0x302A, 0x302D), (0x3031, 0x3035),
     (0x303B, 0x303B), (0x3099, 0x309E), (0x30FC, 0x30FE), (0xA015, 0xA015),
     (0xA4F8, 0xA4FD), (0xA60C, 0xA60C), (0xA66F, 0xA672), (0xA674, 0xA67D),
     (0xA67F, 0xA67F), (0xA69C, 0xA69F), (0xA6F0, 0xA6F1), (0xA700, 0xA721),
     (0xA770, 0xA770), (0xA788, 0xA78A), (0xA7F2, 0xA7F4), (0xA7F8, 0xA7F9),
     (0xA802, 0xA802), (0xA806, 0xA806), (0xA80B, 0xA80B), (0xA825, 0xA826),
     (0xA82C, 0xA82C), (0xA8C4, 0xA8C5), (0xA8E0, 0xA8F1), (0xA8FF, 0xA8FF),
     (0xA926, 0xA92D), (0xA947, 0xA951), (0xA980, 0xA982), (0xA9B3, 0xA9B3),
     (0xA9B6, 0xA9B9), (0xA9BC, 0xA9BD), (0xA9CF, 0xA9CF), (0xA9E5, 0xA9E6),
     (0xAA29, 0xAA2E), (0xAA31, 0xAA32), (0xAA35, 0xAA36), (0xAA43, 0xAA43),
     (0xAA4C, 0xAA4C), (0xAA70, 0xAA70), (0xAA7C, 0xAA7C), (0xAAB0, 0xAAB0),
     (0xAAB2, 0xAAB4), (0xAAB7, 0xAAB8), (0xAABE, 0xAABF), (0xAAC1, 0xAAC1),
     (0xAADD, 0xAADD), (0xAAEC, 0xAAED), (0xAAF3, 0xAAF4), (0xAAF6, 0xAAF6),
     (0xAB5B, 0xAB5F), (0xAB69, 0xAB6B), (0xABE5, 0xABE5), (0xABE8, 0xABE8),
     (0xABED, 0xABED), (0xFB1E, 0xFB1E), (0xFBB2, 0xFBC2), (0xFE00, 0xFE0F),
     (0xFE13, 0xFE13), (0xFE20, 0xFE2F), (0xFE52, 0xFE52), (0xFE55, 0xFE55),
     (0xFEFF, 0xFEFF), (0xFF07, 0xFF07), (0xFF0E, 0xFF0E), (0xFF1A, 0xFF1A),
     (0xFF3E, 0xFF3E), (0xFF40, 0xFF40), (0xFF70, 0xFF70), (0xFF9E, 0xFF9F),
     (0xFFE3, 0xFFE3), (0xFFF9, 0xFFFB), (0x101FD, 0x101FD), (0x102E0, 0x102E0),
     (0x10376, 0x1037A), (0x10780, 0x10785), (0x10787, 0x107B0), (0x107B2, 0x107BA),
     (0x10A01, 0x10A03), (0x10A05, 0x10A06), (0x10A0C, 0x10A0F), (0x10A38, 0x10A3A),
     (0x10A3F, 0x10A3F), (0x10AE5, 0x10AE6), (0x10D24, 0x10D27), (0x10EAB, 0x10EAC),
     (0x10F46, 0x10F50), (0x10F82, 0x10F85), (0x11001, 0x11001), (0x11038, 0x11046),
     (0x11070, 0x11070), (0x11073, 0x11074), (0x1107F, 0x11081), (0x110B3, 0x110B6),
     (0x110B9, 0x110BA), (0x110BD, 0x110BD), (0x110C2, 0x110C2), (0x110CD, 0x110CD),
     (0x11100, 0x11102), (0x11127, 0x1112B), (0x1112D, 0x11134), (0x11173, 0x11173),
     (0x11180, 0x11181), (0x111B6, 0x111BE), (0x111C9, 0x111CC), (0x111CF, 0x111CF),
     (0x1122F, 0x11231), (0x11234, 0x11234), (0x11236, 0x11237), (0x1123E, 0x1123E),
     (0x112DF, 0x112DF), (0x112E3, 0x112EA), (0x11300, 0x11301), (0x1133B, 0x1133C),
     (0x11340, 0x11340), (0x11366, 0x1136C), (0x11370, 0x11374), (0x11438, 0x1143F),
     (0x11442, 0x11444), (0x11446, 0x11446), (0x1145E, 0x1145E), (0x114B3, 0x114B8),
     (0x114BA, 0x114BA), (0x114BF, 0x114C0), (0x114C2, 0x114C3), (0x115B2, 0x115B5),
     (0x115BC, 0x115BD), (0x115BF, 0x115C0), (0x115DC, 0x115DD), (0x11633, 0x1163A),
     (0x1163D, 0x1163D), (0x1163F, 0x11640), (0x116AB, 0x116AB), (0x116AD, 0x116AD),
     (0x116B0, 0x116B5), (0x116B7, 0x116B7), (0x1171D, 0x1171F), (0x11722, 0x11725),
     (0x11727, 0x1172B), (0x1182F, 0x11837), (0x11839, 0x1183A), (0x1193B, 0x1193C),
     (0x1193E, 0x1193E), (0x11943, 0x11943), (0x119D4, 0x119D7), (0x119DA, 0x119DB),
     (0x119E0, 0x119E0), (0x11A01, 0x11A0A), (0x11A33, 0x11A38), (0x11A3B, 0x11A3E),
     (0x11A47, 0x11A47), (0x11A51, 0x11A56), (0x11A59, 0x11A5B), (0x11A8A, 0x11A96),
     (0x11A98, 0x11A99), (0x11C30, 0x11C36), (0x11C38, 0x11C3D), (0x11C3F, 0x11C3F),
     (0x11C92, 0x11CA7), (0x11CAA, 0x11CB0), (0x11CB2, 0x11CB3), (0x11CB5, 0x11CB6),
     (0x11D31, 0x11D36), (0x11D3A, 0x11D3A), (0x11D3C, 0x11D3D), (0x11D3F, 0x11D45),
     (0x11D47, 0x11D47), (0x11D90, 0x11D91), (0x11D95, 0x11D95), (0x11D97, 0x11D97),
     (0x11EF3, 0x11EF4), (0x13430, 0x13438), (0x16AF0, 0x16AF4), (0x16B30, 0x16B36),
     (0x16B40, 0x16B43), (0x16F4F, 0x16F4F), (0x16F8F, 0x16F9F), (0x16FE0, 0x16FE1),
     (0x16FE3, 0x16FE4), (0x1AFF0, 0x1AFF3), (0x1AFF5, 0x1AFFB), (0x1AFFD, 0x1AFFE),
     (0x1BC9D, 0x1BC9E), (0x1BCA0, 0x1BCA3), (0x1CF00, 0x1CF2D), (0x1CF30, 0x1CF46),
     (0x1D167, 0x1D169), (0x1D173, 0x1D182), (0x1D185, 0x1D18B), (0x1D1AA, 0x1D1AD),
     (0x1D242, 0x1D244), (0x1DA00, 0x1DA36), (0x1DA3B, 0x1DA6C), (0x1DA75, 0x1DA75),
     (0x1DA84, 0x1DA84), (0x1DA9B, 0x1DA9F), (0x1DAA1, 0x1DAAF), (0x1E000, 0x1E006),
     (0x1E008, 0x1E018), (0x1E01B, 0x1E021), (0x1E023, 0x1E024), (0x1E026, 0x1E02A),
     (0x1E130, 0x1E13D), (0x1E2AE, 0x1E2AE), (0x1E2EC, 0x1E2EF), (0x1E8D0, 0x1E8D6),
     (0x1E944, 0x1E94B), (0x1F3FB, 0x1F3FF), (0xE0001, 0xE0001), (0xE0020, 0xE007F),
     (0xE0100, 0xE01EF)]"

definition cased_ranges :: "(nat \<times> nat) list" where
  "cased_ranges =
    [
     (0x41, 0x5A), (0x61, 0x7A), (0xAA, 0xAA), (0xB5, 0xB5), (0xBA, 0xBA), (0xC0, 0xD6),
     (0xD8, 0xF6), (0xF8, 0x1BA), (0x1BC, 0x1BF), (0x1C4, 0x293), (0x295, 0x2B8),
     (0x2C0, 0x2C1), (0x2E0, 0x2E4), (0x345, 0x345), (0x370, 0x373), (0x376, 0x377),
     (0x37A, 0x37D), (0x37F, 0x37F), (0x386, 0x386), (0x388, 0x38A), (0x38C, 0x38C),
     (0x38E, 0x3A1), (0x3A3, 0x3F5), (0x3F7, 0x481), (0x48A, 0x52F), (0x531, 0x556),
     (0x560, 0x588), (0x10A0, 0x10C5), (0x10C7, 0x10C7), (0x10CD, 0x10CD),
     (0x10D0, 0x10FA), (0x10FD, 0x10FF), (0x13A0, 0x13F5), (0x13F8, 0x13FD),
     (0x1C80, 0x1C88), (0x1C90, 0x1CBA), (0x1CBD, 0x1CBF), (0x1D00, 0x1DBF),
     (0x1E00, 0x1F15), (0x1F18, 0x1F1D), (0x1F20, 0x1F45), (0x1F48, 0x1F4D),
     (0x1F50, 0x1F57), (0x1F59, 0x1F59), (0x1F5B, 0x1F5B), (0x1F5D, 0x1F5D),
     (0x1F5F, 0x1F7D), (0x1F80, 0x1FB4), (0x1FB6, 0x1FBC), (0x1FBE, 0x1FBE),
     (0x1FC2, 0x1FC4), (0x1FC6, 0x1FCC), (0x1FD0, 0x1FD3), (0x1FD6, 0x1FDB),
     (0x1FE0, 0x1FEC), (0x1FF2, 0x1FF4), (0x1FF6, 0x1FFC), (0x2071, 0x2071),
     (0x207F, 0x207F), (0x2090, 0x209C), (0x2102, 0x2102), (0x2107, 0x2107),
     (0x210A, 0x2113), (0x2115, 0x2115), (0x2119, 0x211D), (0x2124, 0x2124),
     (0x2126, 0x2126), (0x2128, 0x2128), (0x212A, 0x212D), (0x212F, 0x2134),
     (0x2139, 0x2139), (0x213C, 0x213F), (0x2145, 0x2149), (0x214E, 0x214E),
     (0x2160, 0x217F), (0x2183, 0x2184), (0x24B6, 0x24E9), (0x2C00, 0x2CE4),
     (0x2CEB, 0x2CEE), (0x2CF2, 0x2CF3), (0x2D00, 0x2D25), (0x2D27, 0x2D27),
     (0x2D2D, 0x2D2D), (0xA640, 0xA66D), (0xA680, 0xA69D), (0xA722, 0xA787),
     (0xA78B, 0xA78E), (0xA790, 0xA7CA), (0xA7D0, 0xA7D1), (0xA7D3, 0xA7D3),
     (0xA7D5, 0xA7D9), (0xA7F5, 0xA7F6), (0xA7F8, 0xA7FA), (0xAB30, 0xAB5A),
     (0xAB5C, 0xAB68), (0xAB70, 0xABBF), (0xFB00, 0xFB06), (0xFB13, 0xFB17),
     (0xFF21, 0xFF3A), (0xFF41, 0xFF5A), (0x10400, 0x1044F), (0x104B0, 0x104D3),
     (0x104D8, 0x104FB), (0x10570, 0x1057A), (0x1057C, 0x1058A), (0x1058C, 0x10592),
     (0x10594, 0x10595), (0x10597, 0x105A1), (0x105A3, 0x105B1), (0x105B3, 0x105B9),
     (0x105BB, 0x105BC), (0x10780, 0x10780), (0x10783, 0x10785), (0x10787, 0x107B0),
     (0x107B2, 0x107BA), (0x10C80, 0x10CB2), (0x10CC0, 0x10CF2), (0x118A0, 0x118DF),
     (0x16E40, 0x16E7F), (0x1D400, 0x1D454), (0x1D456, 0x1D49C), (0x1D49E, 0x1D49F),
     (0x1D4A2, 0x1D4A2), (0x1D4A5, 0x1D4A6), (0x1D4A9, 0x1D4AC), (0x1D4AE, 0x1D4B9),
     (0x1D4BB, 0x1D4BB), (0x1D4BD, 0x1D4C3), (0x1D4C5, 0x1D505), (0x1D507, 0x1D50A),
     (0x1D50D, 0x1D514), (0x1D516, 0x1D51C), (0x1D51E, 0x1D539), (0x1D53B, 0x1D53E),
     (0x1D540, 0x1D544), (0x1D546, 0x1D546), (0x1D54A, 0x1D550), (0x1D552, 0x1D6A5),
     (0x1D6A8, 0x1D6C0), (0x1D6C2, 0x1D6DA), (0x1D6DC, 0x1D6FA), (0x1D6FC, 0x1D714),
     (0x1D716, 0x1D734), (0x1D736, 0x1D74E), (0x1D750, 0x1D76E), (0x1D770, 0x1D788),
     (0x1D78A, 0x1D7A8), (0x1D7AA, 0x1D7C2), (0x1D7C4, 0x1D7CB), (0x1DF00, 0x1DF09),
     (0x1DF0B, 0x1DF1E), (0x1E900, 0x1E943), (0x1F130, 0x1F149), (0x1F150, 0x1F169),
     (0x1F170, 0x1F189)]"

definition case_ignorable :: "uchar \<Rightarrow> bool" where
  "case_ignorable c \<longleftrightarrow> in_ranges case_ignorable_ranges c"

definition cased :: "uchar \<Rightarrow> bool" where
  "cased c \<longleftrightarrow> in_ranges cased_ranges c"

text \<open>
  \<open>final_sigma before after\<close>, with \<open>before\<close> the text before the sigma, nearest code
  point first, and \<open>after\<close> the text after it: the nearest code point before the sigma
  that is not case-ignorable is cased, and the nearest one after it that is not
  case-ignorable, if there is one, is not cased. Then the sigma becomes U+03C2, otherwise
  U+03C3.
\<close>

definition final_sigma :: "ustr \<Rightarrow> ustr \<Rightarrow> bool" where
  "final_sigma before after =
     (case dropWhile case_ignorable before of
        [] \<Rightarrow> False
      | c # _ \<Rightarrow>
          cased c \<and>
          (case dropWhile case_ignorable after of [] \<Rightarrow> True | d # _ \<Rightarrow> \<not> cased d))"

fun do_lower :: "ustr \<Rightarrow> ustr \<Rightarrow> ustr" where
  "do_lower before [] = []"
| "do_lower before (c # after) =
     (if c = 0x3A3 then [if final_sigma before after then 0x3C2 else 0x3C3]
      else lower_char c) @ do_lower (c # before) after"

declare do_lower.simps [simp del]

definition lower :: "ustr \<Rightarrow> ustr" where
  "lower s = do_lower [] s"

text \<open>
  \<open>str.casefold\<close> folds code point by code point: the code points of
  \<open>casefold_special\<close> fold to more than one code point, the others by
  \<open>casefold_ranges\<close>.
\<close>

definition casefold_special :: "(uchar \<times> ustr) list" where
  "casefold_special =
    [
     (0xDF, [0x73, 0x73]), (0x130, [0x69, 0x307]), (0x149, [0x2BC, 0x6E]),
     (0x1F0, [0x6A, 0x30C]), (0x390, [0x3B9, 0x308, 0x301]),
     (0x3B0, [0x3C5, 0x308, 0x301]), (0x587, [0x565, 0x582]), (0x1E96, [0x68, 0x331]),
     (0x1E97, [0x74, 0x308]), (0x1E98, [0x77, 0x30A]), (0x1E99, [0x79, 0x30A]),
     (0x1E9A, [0x61, 0x2BE]), (0x1E9E, [0x73, 0x73]), (0x1F50, [0x3C5, 0x313]),
     (0x1F52, [0x3C5, 0x313, 0x300]), (0x1F54, [0x3C5, 0x313, 0x301]),
     (0x1F56, [0x3C5, 0x313, 0x342]), (0x1F80, [0x1F00, 0x3B9]),
     (0x1F81, [0x1F01, 0x3B9]), (0x1F82, [0x1F02, 0x3B9]), (0x1F83, [0x1F03, 0x3B9]),
     (0x1F84, [0x1F04, 0x3B9]), (0x1F85, [0x1F05, 0x3B9]), (0x1F86, [0x1F06, 0x3B9]),
     (0x1F87, [0x1F07, 0x3B9]), (0x1F88, [0x1F00, 0x3B9]), (0x1F89, [0x1F01, 0x3B9]),
     (0x1F8A, [0x1F02, 0x3B9]), (0x1F8B, [0x1F03, 0x3B9]), (0x1F8C, [0x1F04, 0x3B9]),
     (0x1F8D, [0x1F05, 0x3B9]), (0x1F8E, [0x1F06, 0x3B9]), (0x1F8F, [0x1F07, 0x3B9]),
     (0x1F90, [0x1F20, 0x3B9]), (0x1F91, [0x1F21, 0x3B9]), (0x1F92, [0x1F22, 0x3B9]),
     (0x1F93, [0x1F23, 0x3B9]), (0x1F94, [0x1F24, 0x3B9]), (0x1F95, [0x1F25, 0x3B9]),
     (0x1F96, [0x1F26, 0x3B9]), (0x1F97, [0x1F27, 0x3B9]), (0x1F98, [0x1F20, 0x3B9]),
     (0x1F99, [0x1F21, 0x3B9]), (0x1F9A, [0x1F22, 0x3B9]), (0x1F9B, [0x1F23, 0x3B9]),
     (0x1F9C, [0x1F24, 0x3B9]), (0x1F9D, [0x1F25, 0x3B9]), (0x1F9E, [0x1F26, 0x3B9]),
     (0x1F9F, [0x1F27, 0x3B9]), (0x1FA0, [0x1F60, 0x3B9]), (0x1FA1, [0x1F61, 0x3B9]),
     (0x1FA2, [0x1F62, 0x3B9]), (0x1FA3, [0x1F63, 0x3B9]), (0x1FA4, [0x1F64, 0x3B9]),
     (0x1FA5, [0x1F65, 0x3B9]), (0x1FA6, [0x1F66, 0x3B9]), (0x1FA7, [0x1F67, 0x3B9]),
     (0x1FA8, [0x1F60, 0x3B9]), (0x1FA9, [0x1F61, 0x3B9]), (0x1FAA, [0x1F62, 0x3B9]),
     (0x1FAB, [0x1F63, 0x3B9]), (0x1FAC, [0x1F64, 0x3B9]), (0x1FAD, [0x1F65, 0x3B9]),
     (0x1FAE, [0x1F66, 0x3B9]), (0x1FAF, [0x1F67, 0x3B9]), (0x1FB2, [0x1F70, 0x3B9]),
     (0x1FB3, [0x3B1, 0x3B9]), (0x1FB4, [0x3AC, 0x3B9]), (0x1FB6, [0x3B1, 0x342]),
     (0x1FB7, [0x3B1, 0x342, 0x3B9]), (0x1FBC, [0x3B1, 0x3B9]),
     (0x1FC2, [0x1F74, 0x3B9]), (0x1FC3, [0x3B7, 0x3B9]), (0x1FC4, [0x3AE, 0x3B9]),
     (0x1FC6, [0x3B7, 0x342]), (0x1FC7, [0x3B7, 0x342, 0x3B9]), (0x1FCC, [0x3B7, 0x3B9]),
     (0x1FD2, [0x3B9, 0x308, 0x300]), (0x1FD3, [0x3B9, 0x308, 0x301]),
     (0x1FD6, [0x3B9, 0x342]), (0x1FD7, [0x3B9, 0x308, 0x342]),
     (0x1FE2, [0x3C5, 0x308, 0x300]), (0x1FE3, [0x3C5, 0x308, 0x301]),
     (0x1FE4, [0x3C1, 0x313]), (0x1FE6, [0x3C5, 0x342]), (0x1FE7, [0x3C5, 0x308, 0x342]),
     (0x1FF2, [0x1F7C, 0x3B9]), (0x1FF3, [0x3C9, 0x3B9]), (0x1FF4, [0x3CE, 0x3B9]),
     (0x1FF6, [0x3C9, 0x342]), (0x1FF7, [0x3C9, 0x342, 0x3B9]), (0x1FFC, [0x3C9, 0x3B9]),
     (0xFB00, [0x66, 0x66]), (0xFB01, [0x66, 0x69]), (0xFB02, [0x66, 0x6C]),
     (0xFB03, [0x66, 0x66, 0x69]), (0xFB04, [0x66, 0x66, 0x6C]), (0xFB05, [0x73, 0x74]),
     (0xFB06, [0x73, 0x74]), (0xFB13, [0x574, 0x576]), (0xFB14, [0x574, 0x565]),
     (0xFB15, [0x574, 0x56B]), (0xFB16, [0x57E, 0x576]), (0xFB17, [0x574, 0x56D])]"

definition casefold_ranges :: "(nat \<times> nat \<times> nat \<times> nat) list" where
  "casefold_ranges =
    [
     (0x41, 0x5A, 1, 0x61), (0xB5, 0xB5, 1, 0x3BC), (0xC0, 0xD6, 1, 0xE0),
     (0xD8, 0xDE, 1, 0xF8), (0x100, 0x12E, 2, 0x101), (0x132, 0x136, 2, 0x133),
     (0x139, 0x147, 2, 0x13A), (0x14A, 0x176, 2, 0x14B), (0x178, 0x178, 1, 0xFF),
     (0x179, 0x17D, 2, 0x17A), (0x17F, 0x17F, 1, 0x73), (0x181, 0x181, 1, 0x253),
     (0x182, 0x184, 2, 0x183), (0x186, 0x186, 1, 0x254), (0x187, 0x187, 1, 0x188),
     (0x189, 0x18A, 1, 0x256), (0x18B, 0x18B, 1, 0x18C), (0x18E, 0x18E, 1, 0x1DD),
     (0x18F, 0x18F, 1, 0x259), (0x190, 0x190, 1, 0x25B), (0x191, 0x191, 1, 0x192),
     (0x193, 0x193, 1, 0x260), (0x194, 0x194, 1, 0x263), (0x196, 0x196, 1, 0x269),
     (0x197, 0x197, 1, 0x268), (0x198, 0x198, 1, 0x199), (0x19C, 0x19C, 1, 0x26F),
     (0x19D, 0x19D, 1, 0x272), (0x19F, 0x19F, 1, 0x275), (0x1A0, 0x1A4, 2, 0x1A1),
     (0x1A6, 0x1A6, 1, 0x280), (0x1A7, 0x1A7, 1, 0x1A8), (0x1A9, 0x1A9, 1, 0x283),
     (0x1AC, 0x1AC, 1, 0x1AD), (0x1AE, 0x1AE, 1, 0x288), (0x1AF, 0x1AF, 1, 0x1B0),
     (0x1B1, 0x1B2, 1, 0x28A), (0x1B3, 0x1B5, 2, 0x1B4), (0x1B7, 0x1B7, 1, 0x292),
     (0x1B8, 0x1B8, 1, 0x1B9), (0x1BC, 0x1BC, 1, 0x1BD), (0x1C4, 0x1C4, 1, 0x1C6),
     (0x1C5, 0x1C5, 1, 0x1C6), (0x1C7, 0x1C7, 1, 0x1C9), (0x1C8, 0x1C8, 1, 0x1C9),
     (0x1CA, 0x1CA, 1, 0x1CC), (0x1CB, 0x1DB, 2, 0x1CC), (0x1DE, 0x1EE, 2, 0x1DF),
     (0x1F1, 0x1F1, 1, 0x1F3), (0x1F2, 0x1F4, 2, 0x1F3), (0x1F6, 0x1F6, 1, 0x195),
     (0x1F7, 0x1F7, 1, 0x1BF), (0x1F8, 0x21E, 2, 0x1F9), (0x220, 0x220, 1, 0x19E),
     (0x222, 0x232, 2, 0x223), (0x23A, 0x23A, 1, 0x2C65), (0x23B, 0x23B, 1, 0x23C),
     (0x23D, 0x23D, 1, 0x19A), (0x23E, 0x23E, 1, 0x2C66), (0x241, 0x241, 1, 0x242),
     (0x243, 0x243, 1, 0x180), (0x244, 0x244, 1, 0x289), (0x245, 0x245, 1, 0x28C),
     (0x246, 0x24E, 2, 0x247), (0x345, 0x345, 1, 0x3B9), (0x370, 0x372, 2, 0x371),
     (0x376, 0x376, 1, 0x377), (0x37F, 0x37F, 1, 0x3F3), (0x386, 0x386, 1, 0x3AC),
     (0x388, 0x38A, 1, 0x3AD), (0x38C, 0x38C, 1, 0x3CC), (0x38E, 0x38F, 1, 0x3CD),
     (0x391, 0x3A1, 1, 0x3B1), (0x3A3, 0x3AB, 1, 0x3C3), (0x3C2, 0x3C2, 1, 0x3C3),
     (0x3CF, 0x3CF, 1, 0x3D7), (0x3D0, 0x3D0, 1, 0x3B2), (0x3D1, 0x3D1, 1, 0x3B8),
     (0x3D5, 0x3D5, 1, 0x3C6), (0x3D6, 0x3D6, 1, 0x3C0), (0x3D8, 0x3EE, 2, 0x3D9),
     (0x3F0, 0x3F0, 1, 0x3BA), (0x3F1, 0x3F1, 1, 0x3C1), (0x3F4, 0x3F4, 1, 0x3B8),
     (0x3F5, 0x3F5, 1, 0x3B5), (0x3F7, 0x3F7, 1, 0x3F8), (0x3F9, 0x3F9, 1, 0x3F2),
     (0x3FA, 0x3FA, 1, 0x3FB), (0x3FD, 0x3FF, 1, 0x37B), (0x400, 0x40F, 1, 0x450),
     (0x410, 0x42F, 1, 0x430), (0x460, 0x480, 2, 0x461), (0x48A, 0x4BE, 2, 0x48B),
     (0x4C0, 0x4C0, 1, 0x4CF), (0x4C1, 0x4CD, 2, 0x4C2), (0x4D0, 0x52E, 2, 0x4D1),
     (0x531, 0x556, 1, 0x561), (0x10A0, 0x10C5, 1, 0x2D00), (0x10C7, 0x10C7, 1, 0x2D27),
     (0x10CD, 0x10CD, 1, 0x2D2D), (0x13F8, 0x13FD, 1, 0x13F0),
     (0x1C80, 0x1C80, 1, 0x432), (0x1C81, 0x1C81, 1, 0x434), (0x1C82, 0x1C82, 1, 0x43E),
     (0x1C83, 0x1C84, 1, 0x441), (0x1C85, 0x1C85, 1, 0x442), (0x1C86, 0x1C86, 1, 0x44A),
     (0x1C87, 0x1C87, 1, 0x463), (0x1C88, 0x1C88, 1, 0xA64B),
     (0x1C90, 0x1CBA, 1, 0x10D0), (0x1CBD, 0x1CBF, 1, 0x10FD),
     (0x1E00, 0x1E94, 2, 0x1E01), (0x1E9B, 0x1E9B, 1, 0x1E61),
     (0x1EA0, 0x1EFE, 2, 0x1EA1), (0x1F08, 0x1F0F, 1, 0x1F00),
     (0x1F18, 0x1F1D, 1, 0x1F10), (0x1F28, 0x1F2F, 1, 0x1F20),
     (0x1F38, 0x1F3F, 1, 0x1F30), (0x1F48, 0x1F4D, 1, 0x1F40),
     (0x1F59, 0x1F5F, 2, 0x1F51), (0x1F68, 0x1F6F, 1, 0x1F60),
     (0x1FB8, 0x1FB9, 1, 0x1FB0), (0x1FBA, 0x1FBB, 1, 0x1F70),
     (0x1FBE, 0x1FBE, 1, 0x3B9), (0x1FC8, 0x1FCB, 1, 0x1F72),
     (0x1FD8, 0x1FD9, 1, 0x1FD0), (0x1FDA, 0x1FDB, 1, 0x1F76),
     (0x1FE8, 0x1FE9, 1, 0x1FE0), (0x1FEA, 0x1FEB, 1, 0x1F7A),
     (0x1FEC, 0x1FEC, 1, 0x1FE5), (0x1FF8, 0x1FF9, 1, 0x1F78),
     (0x1FFA, 0x1FFB, 1, 0x1F7C), (0x2126, 0x2126, 1, 0x3C9), (0x212A, 0x212A, 1, 0x6B),
     (0x212B, 0x212B, 1, 0xE5), (0x2132, 0x2132, 1, 0x214E), (0x2160, 0x216F, 1, 0x2170),
     (0x2183, 0x2183, 1, 0x2184), (0x24B6, 0x24CF, 1, 0x24D0),
     (0x2C00, 0x2C2F, 1, 0x2C30), (0x2C60, 0x2C60, 1, 0x2C61),
     (0x2C62, 0x2C62, 1, 0x26B), (0x2C63, 0x2C63, 1, 0x1D7D), (0x2C64, 0x2C64, 1, 0x27D),
     (0x2C67, 0x2C6B, 2, 0x2C68), (0x2C6D, 0x2C6D, 1, 0x251), (0x2C6E, 0x2C6E, 1, 0x271),
     (0x2C6F, 0x2C6F, 1, 0x250), (0x2C70, 0x2C70, 1, 0x252), (0x2C72, 0x2C72, 1, 0x2C73),
     (0x2C75, 0x2C75, 1, 0x2C76), (0x2C7E, 0x2C7F, 1, 0x23F),
     (0x2C80, 0x2CE2, 2, 0x2C81), (0x2CEB, 0x2CED, 2, 0x2CEC),
     (0x2CF2, 0x2CF2, 1, 0x2CF3), (0xA640, 0xA66C, 2, 0xA641),
     (0xA680, 0xA69A, 2, 0xA681), (0xA722, 0xA72E, 2, 0xA723),
     (0xA732, 0xA76E, 2, 0xA733), (0xA779, 0xA77B, 2, 0xA77A),
     (0xA77D, 0xA77D, 1, 0x1D79), (0xA77E, 0xA786, 2, 0xA77F),
     (0xA78B, 0xA78B, 1, 0xA78C), (0xA78D, 0xA78D, 1, 0x265),
     (0xA790, 0xA792, 2, 0xA791), (0xA796, 0xA7A8, 2, 0xA797),
     (0xA7AA, 0xA7AA, 1, 0x266), (0xA7AB, 0xA7AB, 1, 0x25C), (0xA7AC, 0xA7AC, 1, 0x261),
     (0xA7AD, 0xA7AD, 1, 0x26C), (0xA7AE, 0xA7AE, 1, 0x26A), (0xA7B0, 0xA7B0, 1, 0x29E),
     (0xA7B1, 0xA7B1, 1, 0x287), (0xA7B2, 0xA7B2, 1, 0x29D), (0xA7B3, 0xA7B3, 1, 0xAB53),
     (0xA7B4, 0xA7C2, 2, 0xA7B5), (0xA7C4, 0xA7C4, 1, 0xA794),
     (0xA7C5, 0xA7C5, 1, 0x282), (0xA7C6, 0xA7C6, 1, 0x1D8E),
     (0xA7C7, 0xA7C9, 2, 0xA7C8), (0xA7D0, 0xA7D0, 1, 0xA7D1),
     (0xA7D6, 0xA7D8, 2, 0xA7D7), (0xA7F5, 0xA7F5, 1, 0xA7F6),
     (0xAB70, 0xABBF, 1, 0x13A0), (0xFF21, 0xFF3A, 1, 0xFF41),
     (0x10400, 0x10427, 1, 0x10428), (0x104B0, 0x104D3, 1, 0x104D8),
     (0x10570, 0x1057A, 1, 0x10597), (0x1057C, 0x1058A, 1, 0x105A3),
     (0x1058C, 0x10592, 1, 0x105B3), (0x10594, 0x10595, 1, 0x105BB),
     (0x10C80, 0x10CB2, 1, 0x10CC0), (0x118A0, 0x118BF, 1, 0x118C0),
     (0x16E40, 0x16E5F, 1, 0x16E60), (0x1E900, 0x1E921, 1, 0x1E922)]"

definition casefold_char :: "uchar \<Rightarrow> ustr" where
  "casefold_char c =
     (case map_of casefold_special c of
        Some f \<Rightarrow> f
      | None \<Rightarrow> (case case_lookup casefold_ranges c of None \<Rightarrow> [c] | Some t \<Rightarrow> [t]))"

definition casefold :: "ustr \<Rightarrow> ustr" where
  "casefold s = concat (map casefold_char s)"

section \<open>Numeral converter\<close>

text \<open>\<open>NUM_MAP\<close>, \<open>UNIT_MAP\<close> and \<open>INT_TO_CN\<close>, in the order of the source.\<close>

definition NUM_MAP :: "(uchar \<times> int) list" where
  "NUM_MAP =
    [(0x96F6, 0), (0x3007, 0),
     (0x4E00, 1), (0x4E8C, 2), (0x4E24, 2), (0x4E09, 3), (0x56DB, 4), (0x4E94, 5),
     (0x516D, 6), (0x4E03, 7), (0x516B, 8), (0x4E5D, 9),
     (0x58F9, 1), (0x8D30, 2), (0x8CB3, 2), (0x53C1, 3), (0x8086, 4), (0x4F0D, 5),
     (0x9646, 6), (0x9678, 6), (0x67D2, 7), (0x634C, 8), (0x7396, 9)]"

definition UNIT_MAP :: "(uchar \<times> int) list" where
  "UNIT_MAP =
    [(0x5341, 10), (0x62FE, 10), (0x767E, 100), (0x4F70, 100), (0x5343, 1000),
     (0x4EDF, 1000)]"

definition INT_TO_CN :: "(int \<times> ustr) list" where
  "INT_TO_CN =
    [(0, [0x96F6]), (1, [0x4E00]), (2, [0x4E8C]), (3, [0x4E09]), (4, [0x56DB]),
     (5, [0x4E94]), (6, [0x516D]), (7, [0x4E03]), (8, [0x516B]), (9, [0x4E5D])]"

text \<open>
  The loop of \<open>cn2int\<close> over the characters, with \<open>total\<close> (here \<open>tot\<close>) and \<open>current\<close>
  as arguments; \<open>None\<close> is the \<open>return None\<close> inside the loop.
\<close>

fun cn_loop :: "int \<Rightarrow> int \<Rightarrow> ustr \<Rightarrow> int option" where
  "cn_loop tot current [] = Some (tot + current)"
| "cn_loop tot current (ch # s) =
     (case map_of NUM_MAP ch of
        Some v \<Rightarrow> cn_loop tot v s
      | None \<Rightarrow>
          (case map_of UNIT_MAP ch of
             Some unit \<Rightarrow>
               cn_loop (tot + (if current = 0 then 1 else current) * unit) 0 s
           | None \<Rightarrow> if isspace ch then cn_loop tot current s else None))"

text \<open>
  \<open>cn2int\<close>: \<open>Inl\<close> is an exception that leaves the function, \<open>Inr None\<close> the
  returned \<open>None\<close>.
\<close>

definition cn2int :: "ustr \<Rightarrow> error + int option" where
  "cn2int s0 =
     (let s = strip s0 in
      if s = [] then Inr None
      else if isdigit s then
        (case py_int s of Inl e \<Rightarrow> Inl e | Inr n \<Rightarrow> Inr (Some n))
      else Inr (cn_loop 0 0 s))"

function int2cn :: "int \<Rightarrow> error + ustr" where
  "int2cn n =
     (if n = 0 then Inr [0x96F6]
      else if 0 < n \<and> n < 10 then dict_get INT_TO_CN n
      else if 10 \<le> n \<and> n < 100 then
        (let tens = n div 10; units = n mod 10 in
         case (if tens = 1 then Inr [0x5341]
               else (case dict_get INT_TO_CN tens of
                       Inl e \<Rightarrow> Inl e
                     | Inr g \<Rightarrow> Inr (g @ [0x5341]))) of
           Inl e \<Rightarrow> Inl e
         | Inr result \<Rightarrow>
             if units \<noteq> 0 then
               (case dict_get INT_TO_CN units of
                  Inl e \<Rightarrow> Inl e
                | Inr g \<Rightarrow> Inr (result @ g))
             else Inr result)
      else if 100 \<le> n \<and> n < 1000 then
        (let hundreds = n div 100; remainder = n mod 100 in
         case dict_get INT_TO_CN hundreds of
           Inl e \<Rightarrow> Inl e
         | Inr g \<Rightarrow>
             (let result = g @ [0x767E] in
              if remainder \<noteq> 0 then
                (let result' = (if remainder < 10 then result @ [0x96F6] else result) in
                 case int2cn remainder of
                   Inl e \<Rightarrow> Inl e
                 | Inr r \<Rightarrow> Inr (result' @ r))
              else Inr result))
      else Inr (str_int n))"
  by pat_completeness auto
termination
  by (relation "measure nat") auto

declare int2cn.simps [simp del]

section \<open>Text sanitizer\<close>

text \<open>
  \<open>re.sub\<close> with a pattern that is one character class replaces every character of
  the class; with \<open>class+\<close> it replaces every maximal run of the class.
\<close>

definition sub_char :: "(uchar \<Rightarrow> bool) \<Rightarrow> ustr \<Rightarrow> ustr \<Rightarrow> ustr" where
  "sub_char cls repl s = concat (map (\<lambda>c. if cls c then repl else [c]) s)"

function sub_runs :: "(uchar \<Rightarrow> bool) \<Rightarrow> ustr \<Rightarrow> ustr \<Rightarrow> ustr" where
  "sub_runs cls repl [] = []"
| "sub_runs cls repl (c # s) =
     (if cls c then repl @ sub_runs cls repl (dropWhile cls s)
      else c # sub_runs cls repl s)"
  by pat_completeness auto
termination
  by (relation "measure (\<lambda>(cls, repl, s). length s)")
     (auto simp: length_dropWhile_le less_Suc_eq_le)

text \<open>\<open>INVALID_CHARS_RE\<close>: the class \<open>[<>:"/\\|?*]\<close>.\<close>

definition INVALID_CHARS :: "uchar \<Rightarrow> bool" where
  "INVALID_CHARS c \<longleftrightarrow>
     c \<in> set [0x3C, 0x3E, 0x3A, 0x22, 0x2F, 0x5C, 0x7C, 0x3F, 0x2A]"

text \<open>The class \<open>[\s_\-\<dots>]\<close> with the em dash U+2014 and the en dash U+2013.\<close>

definition connector :: "uchar \<Rightarrow> bool" where
  "connector c \<longleftrightarrow> isspace c \<or> c = 0x5F \<or> c = 0x2D \<or> c = 0x2014 \<or> c = 0x2013"

text \<open>
  \<open>re.sub(r'^[\<dots>]+|[\<dots>]+$', '', text)\<close>: the first alternative matches the run at
  the start, the second the run that reaches the end; a run in the middle matches
  neither. \<open>rstrip(chars)\<close> drops the trailing characters that are in \<open>chars\<close>.
\<close>

definition sub_edges :: "(uchar \<Rightarrow> bool) \<Rightarrow> ustr \<Rightarrow> ustr" where
  "sub_edges cls s = rev (dropWhile cls (rev (dropWhile cls s)))"

definition rstrip :: "ustr \<Rightarrow> ustr \<Rightarrow> ustr" where
  "rstrip chars s = rev (dropWhile (\<lambda>c. c \<in> set chars) (rev s))"

definition sanitize_component :: "ustr \<Rightarrow> ustr" where
  "sanitize_component text0 =
     (let text1 = sub_char INVALID_CHARS [0x2D] text0;
          text2 = sub_runs isspace [0x20] text1;
          text3 = sub_edges connector text2
      in rstrip [0x20, 0x2E] text3)"

section \<open>Group index\<close>

definition PHONE_GROUPS :: "(ustr \<times> ustr list) list" where
  "PHONE_GROUPS =
    [
     (asc ''1-1'', [[0x5C0F, 0x7C73] @ asc ''15'', asc ''xiaomi15'']),
     (asc ''1-2'', [[0x4E00, 0x52A0] @ asc ''13'', asc ''oneplus13'']),
     (asc ''1-3'', [asc ''oppo find x8'', asc ''oppofindx8pro'', asc ''findx8pro'']),
     (asc ''1-4'', [asc ''vivo iqoo13'', asc ''vivoiqoo13'', asc ''iqoo13'']),
     (asc ''1-5'', [[0x4E09, 0x661F] @ asc ''s24'', asc ''samsungs24'']),
     (asc ''2-1'', [asc ''vivo x200 pro'', asc ''vivox200pro'', asc ''x200pro'']),
     (asc ''2-2'', [[0x82F9, 0x679C] @ asc ''15'', asc ''iphone15'']),
     (asc ''2-3'', [[0x8363, 0x8000] @ asc ''magic7'', asc ''honormagic7'', asc ''magic7'']),
     (asc ''2-4'', [[0x7EA2, 0x7C73] @ asc ''k80pro'', asc ''redmik80pro'', asc ''k80pro'']),
     (asc ''2-5'', [[0x534E, 0x4E3A] @ asc ''p40proplus'', asc ''huaweip40proplus'', asc ''p40proplus'']),
     (asc ''3-1'', [[0x534E, 0x4E3A] @ asc ''mate60'', asc ''huaweimate60'', asc ''mate60'']),
     (asc ''3-2'', [[0x4E00, 0x52A0] @ asc ''ace3'', asc ''oneplusace3'', asc ''ace3'']),
     (asc ''3-3'', [[0x5C0F, 0x7C73] @ asc ''14'', asc ''xiaomi14'']),
     (asc ''3-4'', [[0x8363, 0x8000] @ asc ''magic6'', asc ''honormagic6'', asc ''magic6'']),
     (asc ''3-5'', [[0x8363, 0x8000] @ asc ''magicvs3'', asc ''honormagicvs3'', asc ''magicvs3'']),
     (asc ''4-1'', [[0x534E, 0x4E3A] @ asc ''p60'', asc ''huaweip60'', asc ''p60'']),
     (asc ''4-2'', [[0x534E, 0x4E3A] @ asc ''nova13'', asc ''huaweinova13'', asc ''nova13'']),
     (asc ''4-3'', [[0x534E, 0x4E3A] @ asc ''mate50pro'', asc ''huaweimate50pro'', asc ''mate50pro'']),
     (asc ''4-4'', [[0x534E, 0x4E3A] @ asc ''nova14pro'', asc ''huaweinova14pro'', asc ''nova14pro'']),
     (asc ''4-5'', [[0x534E, 0x4E3A] @ asc ''nova14ultra'', asc ''huaweinova14ultra'', asc ''nova14ultra'']),
     (asc ''5-1'', [[0x534E, 0x4E3A] @ asc ''p70pro'', asc ''huaweip70pro'', asc ''p70pro'']),
     (asc ''5-2'', [[0x534E, 0x4E3A] @ asc ''matex5'', asc ''huaweimatex5'', asc ''matex5'']),
     (asc ''5-3'', [asc ''vivo s19 pro'', asc ''vivos19pro'', asc ''s19pro'']),
     (asc ''5-4'', [asc ''vivo x100 pro'', asc ''vivox100pro'', asc ''x100pro'']),
     (asc ''5-5'', [asc ''oppo find x7'', asc ''oppofindx7'', asc ''findx7'']),
     (asc ''5-6'', [asc ''oppo find n3'', asc ''oppofindn3'', asc ''findn3''])]"

definition normalize_model_key :: "ustr \<Rightarrow> ustr" where
  "normalize_model_key s = sub_runs connector [] (strip (lower s))"

text \<open>
  A \<open>dict\<close> keeps its keys in insertion order, and an assignment to a key it has
  keeps the key's place and replaces the value.
\<close>

fun dict_set :: "('k \<times> 'v) list \<Rightarrow> 'k \<Rightarrow> 'v \<Rightarrow> ('k \<times> 'v) list" where
  "dict_set [] k v = [(k, v)]"
| "dict_set ((k', v') # d) k v =
     (if k' = k then (k', v) # d else (k', v') # dict_set d k v)"

record group_index =
  model_to_group :: "(ustr \<times> ustr) list"
  normalized_model_to_group :: "(ustr \<times> ustr \<times> ustr) list"
  group_to_canonical_model :: "(ustr \<times> ustr) list"

text \<open>\<open>init_group_index\<close>: the inner loop over the aliases of one group, the outer loop
  over the groups, and the three cleared dictionaries they start from.\<close>

fun init_aliases :: "ustr \<Rightarrow> ustr list \<Rightarrow> group_index \<Rightarrow> group_index" where
  "init_aliases grp [] ix = ix"
| "init_aliases grp (alias # aliases) ix =
     (let a = strip alias in
      if a = [] then init_aliases grp aliases ix
      else init_aliases grp aliases
             (ix\<lparr>model_to_group := dict_set (model_to_group ix) a grp,
                 normalized_model_to_group :=
                   dict_set (normalized_model_to_group ix) (normalize_model_key a) (grp, a)\<rparr>))"

fun init_groups :: "(ustr \<times> ustr list) list \<Rightarrow> group_index \<Rightarrow> group_index" where
  "init_groups [] ix = ix"
| "init_groups ((grp, aliases) # groups) ix =
     init_groups groups
       (init_aliases grp aliases
          (case aliases of
             [] \<Rightarrow> ix
           | a0 # _ \<Rightarrow>
               ix\<lparr>group_to_canonical_model :=
                    dict_set (group_to_canonical_model ix) grp (strip a0)\<rparr>))"

definition init_group_index :: "(ustr \<times> ustr list) list \<Rightarrow> group_index" where
  "init_group_index groups =
     init_groups groups
       \<lparr>model_to_group = [], normalized_model_to_group = [], group_to_canonical_model = []\<rparr>"

definition NORMALIZED_MODEL_TO_GROUP :: "(ustr \<times> ustr \<times> ustr) list" where
  "NORMALIZED_MODEL_TO_GROUP = normalized_model_to_group (init_group_index PHONE_GROUPS)"

definition GROUP_TO_CANONICAL_MODEL :: "(ustr \<times> ustr) list" where
  "GROUP_TO_CANONICAL_MODEL = group_to_canonical_model (init_group_index PHONE_GROUPS)"

text \<open>\<open>x in y\<close> on strings: \<open>x\<close> occurs in \<open>y\<close> as a contiguous piece.\<close>

fun starts_with :: "ustr \<Rightarrow> ustr \<Rightarrow> bool" where
  "starts_with [] y = True"
| "starts_with (a # x) [] = False"
| "starts_with (a # x) (b # y) = (a = b \<and> starts_with x y)"

fun str_in :: "ustr \<Rightarrow> ustr \<Rightarrow> bool" where
  "str_in x [] = (x = [])"
| "str_in x (c # y) = (starts_with x (c # y) \<or> str_in x y)"

text \<open>
  The fuzzy scan of \<open>find_group_for_model\<close> over the items of the normalized map,
  with \<open>best\<close> as the accumulator.
\<close>

fun scan_best ::
  "(ustr \<times> ustr \<times> ustr) list \<Rightarrow> ustr \<Rightarrow> (ustr \<times> ustr \<times> nat) option \<Rightarrow>
   (ustr \<times> ustr \<times> nat) option" where
  "scan_best [] key best = best"
| "scan_best ((alias_key, grp, alias) # items) key best =
     (if str_in alias_key key \<or> str_in key alias_key then
        (let cand = (grp, alias, length alias_key) in
         case best of
           None \<Rightarrow> scan_best items key (Some cand)
         | Some b \<Rightarrow>
             if snd (snd cand) > snd (snd b) then scan_best items key (Some cand)
             else scan_best items key best)
      else scan_best items key best)"

text \<open>
  \<open>find_group_for_model\<close> reads the global normalized map; \<open>find_group_in\<close> is the
  function with the map as an argument.
\<close>

definition find_group_in ::
  "(ustr \<times> ustr \<times> ustr) list \<Rightarrow> ustr \<Rightarrow> ustr option \<times> ustr option" where
  "find_group_in nm model_text =
     (let key = normalize_model_key model_text in
      case map_of nm key of
        Some (grp, alias) \<Rightarrow> (Some grp, Some alias)
      | None \<Rightarrow>
          (case scan_best nm key None of
             Some (grp, alias, n) \<Rightarrow> (Some grp, Some alias)
           | None \<Rightarrow> (None, None)))"

definition find_group_for_model :: "ustr \<Rightarrow> ustr option \<times> ustr option" where
  "find_group_for_model model_text = find_group_in NORMALIZED_MODEL_TO_GROUP model_text"


section \<open>Pattern extractor\<close>

text \<open>
  A backtracking matcher for the constructs \<open>PATTERN\<close> is written with. A pattern is a
  sequence of items; a quantifier applies to one character class, greedy (the longest
  run first, then shorter ones) or lazy (the shortest first, then longer ones); an
  alternation and an optional group try their branches in order; a capture group is a
  pair of marks. The first way through that reaches the end of the items is the match,
  as in \<open>re\<close>.
\<close>

datatype group = Model | Num

datatype item =
    One "uchar \<Rightarrow> bool"
  | Greedy nat "uchar \<Rightarrow> bool"
  | Lazy nat "uchar \<Rightarrow> bool"
  | Bol
  | Eol
  | Alt "item list" "item list"
  | Opt "item list"
  | Open group
  | Close group

record marks =
  opened :: "group \<Rightarrow> nat option"
  closed :: "group \<Rightarrow> (nat \<times> nat) option"

text \<open>
  \<open>run items pos t m\<close> matches \<open>items\<close> against the rest \<open>t\<close> of the subject, which
  starts at index \<open>pos\<close>. \<open>Bol\<close> is \<open>^\<close> (the start of the subject), \<open>Eol\<close> is \<open>$\<close>
  (the end, or just before a final newline).
\<close>

function run :: "item list \<Rightarrow> nat \<Rightarrow> ustr \<Rightarrow> marks \<Rightarrow> marks option"
  and back_off :: "item list \<Rightarrow> nat \<Rightarrow> ustr \<Rightarrow> marks \<Rightarrow> nat \<Rightarrow> nat \<Rightarrow> marks option"
  and advance :: "item list \<Rightarrow> nat \<Rightarrow> ustr \<Rightarrow> marks \<Rightarrow> nat \<Rightarrow> nat \<Rightarrow> marks option"
where
  "run [] pos t m = Some m"
| "run (One cls # rest) pos t m =
     (case t of [] \<Rightarrow> None | c # t' \<Rightarrow> if cls c then run rest (pos + 1) t' m else None)"
| "run (Greedy lo cls # rest) pos t m =
     (let n = length (takeWhile cls t) in
      if n < lo then None else back_off rest pos t m lo n)"
| "run (Lazy lo cls # rest) pos t m =
     (let n = length (takeWhile cls t) in
      if n < lo then None else advance rest pos t m lo (n - lo))"
| "run (Bol # rest) pos t m = (if pos = 0 then run rest pos t m else None)"
| "run (Eol # rest) pos t m = (if t = [] \<or> t = [10] then run rest pos t m else None)"
| "run (Alt a b # rest) pos t m =
     (case run (a @ rest) pos t m of Some r \<Rightarrow> Some r | None \<Rightarrow> run (b @ rest) pos t m)"
| "run (Opt a # rest) pos t m =
     (case run (a @ rest) pos t m of Some r \<Rightarrow> Some r | None \<Rightarrow> run rest pos t m)"
| "run (Open g # rest) pos t m = run rest pos t (m\<lparr>opened := (opened m)(g \<mapsto> pos)\<rparr>)"
| "run (Close g # rest) pos t m =
     (case opened m g of
        None \<Rightarrow> None
      | Some b \<Rightarrow> run rest pos t (m\<lparr>closed := (closed m)(g \<mapsto> (b, pos))\<rparr>))"
| "back_off rest pos t m lo n =
     (case run rest (pos + n) (drop n t) m of
        Some r \<Rightarrow> Some r
      | None \<Rightarrow> if n \<le> lo then None else back_off rest pos t m lo (n - 1))"
| "advance rest pos t m k left =
     (case run rest (pos + k) (drop k t) m of
        Some r \<Rightarrow> Some r
      | None \<Rightarrow> if left = 0 then None else advance rest pos t m (k + 1) (left - 1))"
  by pat_completeness auto
termination
  by (relation "inv_image (measure (size_list size) <*lex*> measure id)
        (\<lambda>x. case x of
           Inl (items, pos, t, m) \<Rightarrow> (items, 0)
         | Inr (Inl (rest, pos, t, m, lo, n)) \<Rightarrow> (rest, Suc n)
         | Inr (Inr (rest, pos, t, m, k, left)) \<Rightarrow> (rest, Suc left))")
     auto

text \<open>
  \<open>search\<close> tries the start positions from left to right and gives the text of the
  groups of the first match.
\<close>

fun search_from :: "item list \<Rightarrow> nat \<Rightarrow> ustr \<Rightarrow> marks option" where
  "search_from items pos [] = run items pos [] \<lparr>opened = Map.empty, closed = Map.empty\<rparr>"
| "search_from items pos (c # t) =
     (case run items pos (c # t) \<lparr>opened = Map.empty, closed = Map.empty\<rparr> of
        Some r \<Rightarrow> Some r
      | None \<Rightarrow> search_from items (pos + 1) t)"

definition search :: "item list \<Rightarrow> ustr \<Rightarrow> (group \<Rightarrow> ustr option) option" where
  "search items s =
     (case search_from items 0 s of
        None \<Rightarrow> None
      | Some m \<Rightarrow>
          Some (\<lambda>g. case closed m g of
                      None \<Rightarrow> None
                    | Some (b, e) \<Rightarrow> Some (take (e - b) (drop b s))))"

text \<open>The classes of \<open>PATTERN\<close>: \<open>.\<close>, \<open>[-\<dots>]\<close> (hyphen and em dash), \<open>\d\<close> and the
  class of the Chinese numerals, in the order of the source.\<close>

definition dot :: "uchar \<Rightarrow> bool" where
  "dot c \<longleftrightarrow> c \<noteq> 10"

definition dash :: "uchar \<Rightarrow> bool" where
  "dash c \<longleftrightarrow> c = 0x2D \<or> c = 0x2014"

definition nd :: "uchar \<Rightarrow> bool" where
  "nd c \<longleftrightarrow> decimal_value c \<noteq> None"

definition cn_numeral :: "uchar \<Rightarrow> bool" where
  "cn_numeral c \<longleftrightarrow> c \<in> set
     [0x96F6, 0x3007, 0x4E24, 0x4E00, 0x4E8C, 0x4E09, 0x56DB, 0x4E94, 0x516D, 0x4E03,
      0x516B, 0x4E5D, 0x58F9, 0x8D30, 0x8CB3, 0x53C1, 0x8086, 0x4F0D, 0x9646, 0x9678,
      0x67D2, 0x634C, 0x7396, 0x5341, 0x62FE, 0x767E, 0x4F70, 0x5343, 0x4EDF]"

text \<open>
  \<open>PATTERN\<close>, line by line: the optional prefix up to a separator; the model, lazy; the
  marker U+7B2C between blanks; the numeral; the optional U+4E2A, U+70B9 and the optional
  U+4F4D; the ignored tail.
\<close>

definition PATTERN :: "item list" where
  "PATTERN =
    [Bol,
     Opt [Lazy 0 dot,
          Alt [Greedy 2 dash]
              [Alt [One ((=) 0x2014)] [One ((=) 0x2D), One ((=) 0x2D), One ((=) 0x2D)]],
          Greedy 0 isspace],
     Open Model, Lazy 1 dot, Close Model,
     Greedy 0 isspace, One ((=) 0x7B2C), Greedy 0 isspace,
     Open Num, Alt [Greedy 1 nd] [Greedy 1 cn_numeral], Close Num,
     Greedy 0 isspace, Opt [One ((=) 0x4E2A)], Greedy 0 isspace, One ((=) 0x70B9),
     Opt [One ((=) 0x4F4D)],
     Opt [Greedy 0 isspace, Greedy 0 dot],
     Eol]"

section \<open>Name builder\<close>

text \<open>
  \<open>build_new_name\<close>. A string or a tuple in a condition is true when it is not empty;
  \<open>m.group(...)\<close> of a group that took no part in the match is \<open>None\<close>, and \<open>strip\<close>
  on it raises.
\<close>

definition build_new_name :: "ustr \<Rightarrow> error + ustr option" where
  "build_new_name basename =
     (case search PATTERN basename of
        None \<Rightarrow> Inr None
      | Some m \<Rightarrow>
     (case m Model of
        None \<Rightarrow> Inl AttributeError
      | Some model_raw \<Rightarrow>
     (let model = sanitize_component (strip model_raw) in
      if model = [] then Inr None
      else
     (case m Num of
        None \<Rightarrow> Inl AttributeError
      | Some num_text \<Rightarrow>
     (case cn2int (strip num_text) of
        Inl e \<Rightarrow> Inl e
      | Inr None \<Rightarrow> Inr None
      | Inr (Some n) \<Rightarrow>
     (case int2cn n of
        Inl e \<Rightarrow> Inl e
      | Inr num_cn \<Rightarrow>
     (let group_id = fst (find_group_for_model model);
          prefix =
            (case group_id of
               None \<Rightarrow> []
             | Some g \<Rightarrow> if g \<noteq> [] then g @ [0x5F] else []);
          final_model =
            (case group_id of
               None \<Rightarrow> model
             | Some g \<Rightarrow>
                 if g \<noteq> [] then
                   (case map_of GROUP_TO_CANONICAL_MODEL g of
                      None \<Rightarrow> model
                    | Some canonical \<Rightarrow>
                        if canonical \<noteq> [] then
                          (let cleaned = sanitize_component canonical
                           in if cleaned \<noteq> [] then cleaned else model)
                        else model)
                 else model)
      in Inr (Some (prefix @ final_model @ [0x5F, 0x7B2C] @ num_cn @
                    [0x4E2A, 0x70B9])))))))))"

section \<open>Planner\<close>

text \<open>
  A path is the list of its components; the file system is the list of its entries, each
  with the answer of \<open>is_file\<close>, in the order in which the directory listing yields
  them. \<open>name\<close>, \<open>suffix\<close>, \<open>stem\<close> and \<open>with_name\<close> are those of \<open>pathlib\<close>: the
  suffix starts at the last dot of the name when that dot is neither its first nor its
  last character, and \<open>with_name\<close> refuses an empty name, a name with a separator and
  the name of the directory itself.
\<close>

type_synonym path = "ustr list"

type_synonym filesystem = "(path \<times> bool) list"

definition name :: "path \<Rightarrow> ustr" where
  "name p = (if p = [] then [] else last p)"

definition rfind :: "uchar \<Rightarrow> ustr \<Rightarrow> nat option" where
  "rfind c s =
     (if c \<in> set s then Some (length s - 1 - length (takeWhile (\<lambda>x. x \<noteq> c) (rev s)))
      else None)"

definition suffix :: "path \<Rightarrow> ustr" where
  "suffix p =
     (case rfind 0x2E (name p) of
        None \<Rightarrow> []
      | Some i \<Rightarrow> if 0 < i \<and> i < length (name p) - 1 then drop i (name p) else [])"

definition stem :: "path \<Rightarrow> ustr" where
  "stem p =
     (case rfind 0x2E (name p) of
        None \<Rightarrow> name p
      | Some i \<Rightarrow> if 0 < i \<and> i < length (name p) - 1 then take i (name p) else name p)"

definition with_name :: "path \<Rightarrow> ustr \<Rightarrow> error + path" where
  "with_name p n =
     (if name p = [] \<or> n = [] \<or> 0x2F \<in> set n \<or> n = [0x2E] then Inl ValueError
      else Inr (butlast p @ [n]))"

definition exists_path :: "filesystem \<Rightarrow> path \<Rightarrow> bool" where
  "exists_path fs p \<longleftrightarrow> p \<in> set (map fst fs)"

definition is_file :: "filesystem \<Rightarrow> path \<Rightarrow> bool" where
  "is_file fs p \<longleftrightarrow> map_of fs p = Some True"

text \<open>
  The candidate names of \<open>ensure_unique\<close> differ for different counters, since the
  decimal text of a number determines the number; so the loop leaves the finitely many
  entries of the file system behind.
\<close>

definition digits_value :: "ustr \<Rightarrow> nat" where
  "digits_value s = foldl (\<lambda>a c. 10 * a + (c - 48)) 0 s"

definition candidate :: "ustr \<Rightarrow> ustr \<Rightarrow> nat \<Rightarrow> ustr" where
  "candidate st sf i = st @ [0x20, 0x28] @ str_nat i @ [0x29] @ sf"

lemma digits_value_str_nat: "digits_value (str_nat n) = n"
proof (induction n rule: str_nat.induct)
  case (1 n)
  show ?case
  proof (cases "n < 10")
    case True
    then show ?thesis by (subst str_nat.simps) (simp add: digits_value_def)
  next
    case False
    then have "digits_value (str_nat (n div 10)) = n div 10" using 1 by simp
    then show ?thesis using False
      by (subst str_nat.simps) (simp add: digits_value_def)
  qed
qed

lemma str_nat_inj: "str_nat i = str_nat j \<Longrightarrow> i = j"
  by (metis digits_value_str_nat)

lemma candidate_inj: "candidate st sf i = candidate st sf j \<Longrightarrow> i = j"
proof -
  assume "candidate st sf i = candidate st sf j"
  then have "str_nat i @ [0x29] @ sf = str_nat j @ [0x29] @ sf" by (simp add: candidate_def)
  then have "str_nat i = str_nat j" by simp
  then show ?thesis by (rule str_nat_inj)
qed

lemma finite_taken: "finite {j. parent @ [candidate st sf j] \<in> set ex}"
proof -
  have "inj (\<lambda>j. parent @ [candidate st sf j])"
    by (rule injI) (auto dest: candidate_inj)
  then have "finite ((\<lambda>j. parent @ [candidate st sf j]) -` set ex)"
    by (intro finite_vimageI) auto
  then show ?thesis by (simp add: vimage_def)
qed

text \<open>The \<open>while True\<close> loop of \<open>ensure_unique\<close>, with the counter \<open>i\<close> as argument.\<close>

function ensure_loop :: "filesystem \<Rightarrow> path \<Rightarrow> ustr \<Rightarrow> ustr \<Rightarrow> nat \<Rightarrow> error + path" where
  "ensure_loop fs target st sf i =
     (case with_name target (st @ [0x20, 0x28] @ str_nat i @ [0x29] @ sf) of
        Inl e \<Rightarrow> Inl e
      | Inr cand \<Rightarrow>
          if \<not> exists_path fs cand then Inr cand
          else ensure_loop fs target st sf (i + 1))"
  by pat_completeness auto
termination
proof (relation "measure (\<lambda>(fs, target, st, sf, i).
          card {j. i \<le> j \<and> butlast target @ [candidate st sf j] \<in> set (map fst fs)})")
  show "wf (measure (\<lambda>(fs, target, st, sf, i).
          card {j. i \<le> j \<and> butlast target @ [candidate st sf j] \<in> set (map fst fs)}))"
    by simp
next
  fix fs :: filesystem and target :: path and st sf :: ustr and i :: nat and cand :: path
  assume w: "with_name target (st @ [0x20, 0x28] @ str_nat i @ [0x29] @ sf) = Inr cand"
    and e: "\<not> \<not> exists_path fs cand"
  let ?S = "\<lambda>i. {j. i \<le> j \<and> butlast target @ [candidate st sf j] \<in> set (map fst fs)}"
  have c: "cand = butlast target @ [candidate st sf i]"
    using w by (auto simp: with_name_def candidate_def split: if_splits)
  have fin: "finite (?S i)"
    using finite_taken [of "butlast target" st sf "map fst fs"]
    by (rule rev_finite_subset) auto
  have "i \<in> ?S i" using e c by (simp add: exists_path_def)
  moreover have "i \<notin> ?S (i + 1)" by simp
  moreover have "?S (i + 1) \<subseteq> ?S i" by auto
  ultimately have "?S (i + 1) \<subset> ?S i" by blast
  then have "card (?S (i + 1)) < card (?S i)"
    using fin by (rule psubset_card_mono [rotated])
  then show "((fs, target, st, sf, i + 1), (fs, target, st, sf, i)) \<in>
      measure (\<lambda>(fs, target, st, sf, i).
          card {j. i \<le> j \<and> butlast target @ [candidate st sf j] \<in> set (map fst fs)})"
    by simp
qed

declare ensure_loop.simps [simp del]

definition ensure_unique :: "filesystem \<Rightarrow> path \<Rightarrow> error + path" where
  "ensure_unique fs target =
     (if \<not> exists_path fs target then Inr target
      else ensure_loop fs target (stem target) (suffix target) 2)"

text \<open>\<open>root.iterdir()\<close> yields the entries of the directory, \<open>root.rglob('*')\<close> the
  entries below it.\<close>

definition iterdir :: "filesystem \<Rightarrow> path \<Rightarrow> path list" where
  "iterdir fs root = filter (\<lambda>p. p \<noteq> [] \<and> butlast p = root) (map fst fs)"

definition rglob :: "filesystem \<Rightarrow> path \<Rightarrow> path list" where
  "rglob fs root =
     filter (\<lambda>p. length root < length p \<and> take (length root) p = root) (map fst fs)"

text \<open>The loop of \<open>plan_changes\<close> over the files, with the list \<open>plans\<close> as argument.\<close>

fun plan_loop ::
  "filesystem \<Rightarrow> path list \<Rightarrow> (path \<times> path) list \<Rightarrow> error + (path \<times> path) list" where
  "plan_loop fs [] plans = Inr plans"
| "plan_loop fs (p # files) plans =
     (if \<not> is_file fs p then plan_loop fs files plans
      else
     (case build_new_name (stem p) of
        Inl e \<Rightarrow> Inl e
      | Inr None \<Rightarrow> plan_loop fs files plans
      | Inr (Some new_base) \<Rightarrow>
          if new_base = [] then plan_loop fs files plans
          else if new_base = stem p then plan_loop fs files plans
          else
     (case with_name p (new_base @ suffix p) of
        Inl e \<Rightarrow> Inl e
      | Inr target \<Rightarrow>
     (case ensure_unique fs target of
        Inl e \<Rightarrow> Inl e
      | Inr new_path \<Rightarrow>
          if casefold (name new_path) = casefold (name p) then plan_loop fs files plans
          else if new_path \<noteq> p then plan_loop fs files (plans @ [(p, new_path)])
          else plan_loop fs files plans))))"

definition plan_changes :: "filesystem \<Rightarrow> path \<Rightarrow> bool \<Rightarrow> error + (path \<times> path) list" where
  "plan_changes fs root recursive =
     plan_loop fs (if recursive then rglob fs root else iterdir fs root) []"

section \<open>The specification's numeral rules\<close>

text \<open>
  The rendering of an integer as the specification words it: \<open>glyph\<close> is the lowercase
  numeral of a digit, \<open>render_tens\<close> the rule for 10 to 99.
\<close>

definition glyph :: "int \<Rightarrow> uchar" where
  "glyph d = [0x96F6, 0x4E00, 0x4E8C, 0x4E09, 0x56DB, 0x4E94, 0x516D, 0x4E03, 0x516B, 0x4E5D] ! nat d"

definition render_tens :: "int \<Rightarrow> ustr" where
  "render_tens n =
     (if n div 10 = 1 then [] else [glyph (n div 10)]) @ [0x5341] @
     (if n mod 10 = 0 then [] else [glyph (n mod 10)])"

definition int2cn_spec :: "int \<Rightarrow> ustr" where
  "int2cn_spec n =
     (if n = 0 then [0x96F6]
      else if 1 \<le> n \<and> n \<le> 9 then [glyph n]
      else if 10 \<le> n \<and> n \<le> 99 then render_tens n
      else if 100 \<le> n \<and> n \<le> 999 then
        [glyph (n div 100), 0x767E] @
        (if n mod 100 = 0 then []
         else if n mod 100 \<le> 9 then [0x96F6, glyph (n mod 100)]
         else render_tens (n mod 100))
      else str_int n)"

text \<open>
  The evaluation of a numeral as the specification words it: a state of running total
  and pending digit, folded over the characters from the left; a character of neither
  class leaves the state as it is.
\<close>

definition spec_step :: "int \<times> int \<Rightarrow> uchar \<Rightarrow> int \<times> int" where
  "spec_step st ch =
     (case map_of NUM_MAP ch of
        Some v \<Rightarrow> (fst st, v)
      | None \<Rightarrow>
          (case map_of UNIT_MAP ch of
             Some u \<Rightarrow> (fst st + (if snd st = 0 then 1 else snd st) * u, 0)
           | None \<Rightarrow> st))"

definition spec_eval :: "ustr \<Rightarrow> int" where
  "spec_eval s = (let st = foldl spec_step (0, 0) s in fst st + snd st)"

definition unrecognized :: "uchar \<Rightarrow> bool" where
  "unrecognized c \<longleftrightarrow> map_of NUM_MAP c = None \<and> map_of UNIT_MAP c = None \<and> \<not> isspace c"

section \<open>The specification's lookup rules\<close>

definition spec_normalize :: "ustr \<Rightarrow> ustr" where
  "spec_normalize s = filter (\<lambda>c. \<not> connector c) (lower s)"

definition contains_either :: "ustr \<Rightarrow> ustr \<times> ustr \<times> ustr \<Rightarrow> bool" where
  "contains_either key e \<longleftrightarrow> str_in (fst e) key \<or> str_in key (fst e)"

definition first_longest :: "(ustr \<times> ustr \<times> ustr) list \<Rightarrow> (ustr \<times> ustr \<times> ustr) option" where
  "first_longest es =
     (if es = [] then None
      else find (\<lambda>e. length (fst e) = Max (set (map (\<lambda>e. length (fst e)) es))) es)"

definition alias_pairs :: "(ustr \<times> ustr list) list \<Rightarrow> (ustr \<times> ustr \<times> ustr) list" where
  "alias_pairs groups =
     concat (map (\<lambda>(g, as). map (\<lambda>a. (normalize_model_key (strip a), g, strip a))
                                 (filter (\<lambda>a. strip a \<noteq> []) as)) groups)"

definition dict_of_pairs :: "('k \<times> 'v) list \<Rightarrow> ('k \<times> 'v) list \<Rightarrow> ('k \<times> 'v) list" where
  "dict_of_pairs d ps = foldl (\<lambda>d (k, v). dict_set d k v) d ps"

definition canonical_pairs :: "(ustr \<times> ustr list) list \<Rightarrow> (ustr \<times> ustr) list" where
  "canonical_pairs groups =
     concat (map (\<lambda>(g, as). case as of [] \<Rightarrow> [] | a0 # _ \<Rightarrow> [(g, strip a0)]) groups)"

text \<open>The table of the specification's example of the longest alias: two groups,
  one with the alias \<open>x8\<close>, one with \<open>findx8pro\<close>.\<close>

definition two_groups :: "(ustr \<times> ustr list) list" where
  "two_groups = [(asc ''7-1'', [asc ''x8'']), (asc ''7-2'', [asc ''findx8pro''])]"

section \<open>The specification's sanitizer rules\<close>

text \<open>
  The steps of the sanitizer as the specification words them. \<open>collapse_ws\<close> reads the
  text once and remembers whether it is inside a run of blanks. \<open>trimmed_both cls s r\<close>
  says that \<open>r\<close> is \<open>s\<close> without a run of \<open>cls\<close> at each end: \<open>r\<close> stands in \<open>s\<close> at
  some offset with only \<open>cls\<close> before and after it, and is empty or starts and ends
  outside \<open>cls\<close>. \<open>trimmed_right\<close> is the same for the end alone.
\<close>

fun collapse_ws :: "bool \<Rightarrow> ustr \<Rightarrow> ustr" where
  "collapse_ws in_run [] = []"
| "collapse_ws in_run (c # s) =
     (if isspace c then (if in_run then collapse_ws True s else 0x20 # collapse_ws True s)
      else c # collapse_ws False s)"

definition trimmed_both :: "(uchar \<Rightarrow> bool) \<Rightarrow> ustr \<Rightarrow> ustr \<Rightarrow> bool" where
  "trimmed_both cls s r \<longleftrightarrow>
     list_ex (\<lambda>i. take (length r) (drop i s) = r \<and> list_all cls (take i s) \<and>
                  list_all cls (drop (i + length r) s)) [0..<Suc (length s)] \<and>
     (r = [] \<or> (\<not> cls (hd r) \<and> \<not> cls (last r)))"

definition trimmed_right :: "(uchar \<Rightarrow> bool) \<Rightarrow> ustr \<Rightarrow> ustr \<Rightarrow> bool" where
  "trimmed_right cls s r \<longleftrightarrow>
     length r \<le> length s \<and> take (length r) s = r \<and> list_all cls (drop (length r) s) \<and>
     (r = [] \<or> \<not> cls (last r))"

section \<open>Properties of the numeral converter\<close>

lemma digit_cases: "0 < d \<Longrightarrow> d < 10 \<Longrightarrow> d = 1 \<or> d = 2 \<or> d = 3 \<or> d = 4 \<or> d = 5 \<or> d = 6 \<or> d = 7 \<or> d = 8 \<or> d = (9::int)"
  by arith

lemma INT_TO_CN_digit: "0 < d \<Longrightarrow> d < 10 \<Longrightarrow> dict_get INT_TO_CN d = Inr [glyph d]"
  using digit_cases [of d] by (auto simp: dict_get_def INT_TO_CN_def glyph_def)

lemma int2cn_tens:
  assumes "10 \<le> n" "n < 100"
  shows "int2cn n = Inr (render_tens n)"
proof -
  have t: "0 < n div 10" "n div 10 < 10" using assms by auto
  have u: "n mod 10 \<noteq> 0 \<Longrightarrow> 0 < n mod 10 \<and> n mod 10 < 10"
    using pos_mod_sign [of 10 n] pos_mod_bound [of 10 n] by linarith
  show ?thesis
    using assms u
    by (subst int2cn.simps) (simp add: INT_TO_CN_digit [OF t] render_tens_def Let_def INT_TO_CN_digit)
qed

lemma int2cn_units: "0 < n \<Longrightarrow> n < 10 \<Longrightarrow> int2cn n = Inr [glyph n]"
  by (subst int2cn.simps) (simp add: INT_TO_CN_digit)

lemma int2cn_hundreds:
  assumes "100 \<le> n" "n < 1000"
  shows "int2cn n = Inr ([glyph (n div 100), 0x767E] @
        (if n mod 100 = 0 then []
         else if n mod 100 \<le> 9 then [0x96F6, glyph (n mod 100)]
         else render_tens (n mod 100)))"
proof -
  have h: "0 < n div 100" "n div 100 < 10" using assms by auto
  have r: "0 \<le> n mod 100" "n mod 100 < 100" by auto
  show ?thesis
  proof (cases "n mod 100 = 0")
    case True
    then show ?thesis using assms
      by (subst int2cn.simps) (simp add: INT_TO_CN_digit [OF h] Let_def)
  next
    case nz: False
    show ?thesis
    proof (cases "n mod 100 < 10")
      case True
      then have "int2cn (n mod 100) = Inr [glyph (n mod 100)]"
        using nz r by (intro int2cn_units) auto
      then show ?thesis using assms nz True
        by (subst int2cn.simps) (simp add: INT_TO_CN_digit [OF h] Let_def)
    next
      case False
      then have "int2cn (n mod 100) = Inr (render_tens (n mod 100))"
        using r by (intro int2cn_tens) auto
      then show ?thesis using assms nz False
        by (subst int2cn.simps) (simp add: INT_TO_CN_digit [OF h] Let_def)
    qed
  qed
qed

lemma int2cn_fallback: "n < 0 \<or> 1000 \<le> n \<Longrightarrow> int2cn n = Inr (str_int n)"
  by (subst int2cn.simps) auto

lemma int2cn_eq_spec: "int2cn n = Inr (int2cn_spec n)"
proof -
  consider "n = 0" | "0 < n" "n < 10" | "10 \<le> n" "n < 100" | "100 \<le> n" "n < 1000" | "n < 0 \<or> 1000 \<le> n"
    by linarith
  then show ?thesis
  proof cases
    case 1 then show ?thesis by (subst int2cn.simps) (simp add: int2cn_spec_def)
  next
    case 2 then show ?thesis by (simp add: int2cn_units int2cn_spec_def)
  next
    case 3 then show ?thesis by (simp add: int2cn_tens int2cn_spec_def)
  next
    case 4 then show ?thesis by (simp add: int2cn_hundreds int2cn_spec_def)
  next
    case 5 then show ?thesis by (auto simp add: int2cn_fallback int2cn_spec_def)
  qed
qed


lemma str_nat_small: "n < 10 \<Longrightarrow> str_nat n = [48 + n]" by (subst str_nat.simps) simp
lemma str_nat_step: "10 \<le> n \<Longrightarrow> str_nat n = str_nat (n div 10) @ [48 + n mod 10]" by (subst str_nat.simps) simp

lemma strip_id: "s \<noteq> [] \<Longrightarrow> \<not> isspace (hd s) \<Longrightarrow> \<not> isspace (last s) \<Longrightarrow> strip s = s"
proof -
  assume a: "s \<noteq> []" "\<not> isspace (hd s)" "\<not> isspace (last s)"
  then have 1: "dropWhile isspace s = s" by (cases s) auto
  have "rev s \<noteq> []" "\<not> isspace (hd (rev s))" using a by (auto simp: hd_rev)
  then have 2: "dropWhile isspace (rev s) = rev s" by (cases "rev s") auto
  show ?thesis by (simp add: strip_def 1 2)
qed

lemma digit0_cases: "0 \<le> d \<Longrightarrow> d < 10 \<Longrightarrow> d = 0 \<or> d = 1 \<or> d = 2 \<or> d = 3 \<or> d = 4 \<or> d = 5 \<or> d = 6 \<or> d = 7 \<or> d = 8 \<or> d = (9::int)"
  by arith

lemma glyph_NUM: "0 \<le> d \<Longrightarrow> d < 10 \<Longrightarrow> map_of NUM_MAP (glyph d) = Some d"
  using digit0_cases [of d] by (auto simp: NUM_MAP_def glyph_def)

lemma glyph_not_space: "0 \<le> d \<Longrightarrow> d < 10 \<Longrightarrow> \<not> isspace (glyph d)"
  using digit0_cases [of d] by (auto simp: isspace_def glyph_def)

lemma decimal_value_None: "\<forall>s \<in> set nd_starts. \<not> (s \<le> c \<and> c < s + 10) \<Longrightarrow> decimal_value c = None"
  by (simp add: decimal_value_def filter_empty_conv [THEN iffD2] split: list.splits)

lemma cjk_not_digit: "0x2E80 \<le> c \<Longrightarrow> c < 0xA000 \<Longrightarrow> \<not> isdigit_char c"
  by (simp add: isdigit_char_def decimal_value_None nd_starts_def digit_only_ranges_def)

lemma glyph_range: "0 \<le> d \<Longrightarrow> d < 10 \<Longrightarrow> 0x2E80 \<le> glyph d \<and> glyph d < 0xA000"
  using digit0_cases [of d] by (auto simp: glyph_def)

lemma unit_facts:
  "map_of NUM_MAP 0x5341 = None" "map_of UNIT_MAP 0x5341 = Some 10"
  "map_of NUM_MAP 0x767E = None" "map_of UNIT_MAP 0x767E = Some 100"
  "\<not> isspace 0x5341" "\<not> isspace 0x767E"
  by (simp_all add: NUM_MAP_def UNIT_MAP_def isspace_def)

lemma cn_loop_glyph: "0 \<le> d \<Longrightarrow> d < 10 \<Longrightarrow> cn_loop t c (glyph d # s) = cn_loop t d s"
  by (simp add: glyph_NUM)

lemma cn_loop_shi: "cn_loop t c (0x5341 # s) = cn_loop (t + (if c = 0 then 1 else c) * 10) 0 s"
  by (simp add: unit_facts del: One_nat_def)

lemma cn_loop_bai: "cn_loop t c (0x767E # s) = cn_loop (t + (if c = 0 then 1 else c) * 100) 0 s"
  by (simp add: unit_facts)

lemma cn_loop_tens:
  assumes "10 \<le> m" "m < 100"
  shows "cn_loop t 0 (render_tens m) = Some (t + m)"
proof -
  have d: "0 \<le> m div 10" "m div 10 < 10" "0 \<le> m mod 10" "m mod 10 < 10" "1 \<le> m div 10"
    using assms by auto
  have m: "m = 10 * (m div 10) + m mod 10" by simp
  show ?thesis
  proof (cases "m div 10 = 1")
    case True
    then show ?thesis using d m
      by (auto simp: render_tens_def cn_loop_shi cn_loop_glyph simp del: cn_loop.simps(2))
  next
    case False
    then show ?thesis using d m
      by (auto simp: render_tens_def cn_loop_shi cn_loop_glyph simp del: cn_loop.simps(2))
  qed
qed

lemma cn_loop_spec:
  assumes "0 \<le> n" "n < 1000"
  shows "cn_loop 0 0 (int2cn_spec n) = Some n"
proof -
  consider "n = 0" | "0 < n" "n < 10" | "10 \<le> n" "n < 100" | "100 \<le> n" "n < 1000"
    using assms by linarith
  then show ?thesis
  proof cases
    case 1
    then show ?thesis using cn_loop_glyph [of 0 0 0 "[]"] by (simp add: int2cn_spec_def glyph_def del: cn_loop.simps(2))
  next
    case 2
    then show ?thesis by (simp add: int2cn_spec_def cn_loop_glyph del: cn_loop.simps(2))
  next
    case 3
    then show ?thesis using cn_loop_tens [of n 0] by (simp add: int2cn_spec_def)
  next
    case 4
    then have h: "0 \<le> n div 100" "n div 100 < 10" "n div 100 \<noteq> 0" by auto
    have r: "0 \<le> n mod 100" "n mod 100 < 100" by auto
    have n: "n = (n div 100) * 100 + n mod 100" by simp
    have z: "cn_loop t c (0x96F6 # s) = cn_loop t 0 s" for t c s
      using cn_loop_glyph [of 0 t c s] by (simp add: glyph_def)
    have "cn_loop 0 0 (int2cn_spec n) = cn_loop (n div 100 * 100) 0
        (if n mod 100 = 0 then []
         else if n mod 100 \<le> 9 then [0x96F6, glyph (n mod 100)]
         else render_tens (n mod 100))"
      using 4 h by (simp add: int2cn_spec_def cn_loop_glyph cn_loop_bai del: cn_loop.simps(2))
    also have "\<dots> = Some (n div 100 * 100 + n mod 100)"
      using r cn_loop_tens [of "n mod 100" "n div 100 * 100"]
      by (auto simp: z cn_loop_glyph simp del: cn_loop.simps(2))
    finally show ?thesis using n by simp
  qed
qed

lemma spec_shape:
  assumes "0 \<le> n" "n < 1000"
  shows "int2cn_spec n \<noteq> [] \<and> 0x2E80 \<le> hd (int2cn_spec n) \<and> hd (int2cn_spec n) < 0xA000
         \<and> \<not> isspace (hd (int2cn_spec n)) \<and> \<not> isspace (last (int2cn_spec n))"
proof -
  have g: "0 \<le> d \<Longrightarrow> d < 10 \<Longrightarrow> 11904 \<le> glyph d \<and> glyph d < 40960 \<and> \<not> isspace (glyph d)" for d
    using glyph_range [of d] glyph_not_space [of d] by simp
  have t: "10 \<le> m \<Longrightarrow> m < 100 \<Longrightarrow> render_tens m \<noteq> [] \<and> 11904 \<le> hd (render_tens m) \<and> hd (render_tens m) < 40960
     \<and> \<not> isspace (hd (render_tens m)) \<and> \<not> isspace (last (render_tens m))" for m
    using g [of "m div 10"] g [of "m mod 10"] by (auto simp: render_tens_def unit_facts)
  consider "n = 0" | "0 < n" "n < 10" | "10 \<le> n" "n < 100" | "100 \<le> n" "n < 1000"
    using assms by linarith
  then show ?thesis
  proof cases
    case 1 then show ?thesis by (simp add: int2cn_spec_def isspace_def)
  next
    case 2 then show ?thesis using g [of n] by (simp add: int2cn_spec_def)
  next
    case 3 then show ?thesis using t [of n] by (simp add: int2cn_spec_def)
  next
    case 4
    have r: "0 \<le> n mod 100" "n mod 100 < 100" by auto
    show ?thesis using 4 g [of "n div 100"] g [of "n mod 100"] t [of "n mod 100"] r
      by (auto simp: int2cn_spec_def unit_facts)
  qed
qed

lemma round_trip:
  assumes "0 \<le> n" "n < 1000"
  shows "cn2int (int2cn_spec n) = Inr (Some n)"
proof -
  let ?s = "int2cn_spec n"
  have sh: "?s \<noteq> []" "0x2E80 \<le> hd ?s" "hd ?s < 0xA000" "\<not> isspace (hd ?s)" "\<not> isspace (last ?s)"
    using spec_shape [OF assms] by simp_all
  have 1: "strip ?s = ?s" using sh by (intro strip_id) 
  have "\<not> isdigit_char (hd ?s)" using sh by (intro cjk_not_digit)
  then have 2: "\<not> isdigit ?s" using sh(1) by (cases ?s) (auto simp: isdigit_def)
  show ?thesis using sh(1) by (simp add: cn2int_def 1 2 cn_loop_spec [OF assms])
qed


lemma cn_loop_None: "cn_loop t c s = None \<longleftrightarrow> list_ex unrecognized s"
  by (induction s arbitrary: t c) (auto simp: unrecognized_def split: option.splits)

lemma cn_loop_fold:
  "cn_loop t c s = Some n \<Longrightarrow> n = fst (foldl spec_step (t, c) s) + snd (foldl spec_step (t, c) s)"
proof (induction s arbitrary: t c)
  case Nil
  then show ?case by simp
next
  case (Cons ch s)
  have "\<exists>t' c'. spec_step (t, c) ch = (t', c') \<and> cn_loop t' c' s = Some n"
  proof (cases "map_of NUM_MAP ch")
    case (Some v)
    then show ?thesis using Cons.prems by (simp add: spec_step_def)
  next
    case nn: None
    show ?thesis
    proof (cases "map_of UNIT_MAP ch")
      case (Some u)
      then show ?thesis using Cons.prems nn by (cases "c = 0") (simp_all add: spec_step_def)
    next
      case None
      then show ?thesis using Cons.prems nn by (simp add: spec_step_def split: if_splits)
    qed
  qed
  then obtain t' c' where st: "spec_step (t, c) ch = (t', c')" and l: "cn_loop t' c' s = Some n"
    by blast
  from Cons.IH [OF l] show ?case by (simp only: foldl_Cons st)
qed

lemma cn2int_None_iff:
  "cn2int s = Inr None \<longleftrightarrow>
     strip s = [] \<or> (\<not> isdigit (strip s) \<and> list_ex unrecognized (strip s))"
  by (auto simp: cn2int_def Let_def cn_loop_None split: sum.splits)

lemma cn2int_eval:
  "cn2int s = Inr (Some n) \<Longrightarrow> \<not> isdigit (strip s) \<Longrightarrow> n = spec_eval (strip s)"
  by (auto simp: cn2int_def Let_def spec_eval_def dest: cn_loop_fold split: if_splits)


lemma decimal_value_digit3: "decimal_value 0x33 = Some 3"
  by (simp add: decimal_value_def nd_starts_def)

lemma cn2int_shi_er: "cn2int [0x5341, 0x4E8C] = Inr (Some 12)"
  by (simp add: cn2int_def strip_id isspace_def isdigit_def cjk_not_digit NUM_MAP_def
      UNIT_MAP_def)

lemma cn2int_er_shi: "cn2int [0x4E8C, 0x5341] = Inr (Some 20)"
  by (simp add: cn2int_def strip_id isspace_def isdigit_def cjk_not_digit NUM_MAP_def
      UNIT_MAP_def)

lemma cn2int_105: "cn2int [0x4E00, 0x767E, 0x96F6, 0x4E94] = Inr (Some 105)"
  by (simp add: cn2int_def strip_id isspace_def isdigit_def cjk_not_digit NUM_MAP_def
      UNIT_MAP_def)

lemma cn2int_3: "cn2int (asc ''3'') = Inr (Some 3)"
  by (simp add: cn2int_def strip_id isspace_def isdigit_def isdigit_char_def py_int_def
      asc_def decimal_value_digit3)

lemma int2cn_0: "int2cn 0 = Inr [0x96F6]"
  by (simp add: int2cn_eq_spec int2cn_spec_def)

lemma int2cn_12: "int2cn 12 = Inr [0x5341, 0x4E8C]"
  by (simp add: int2cn_eq_spec int2cn_spec_def render_tens_def glyph_def)

lemma int2cn_105: "int2cn 105 = Inr [0x4E00, 0x767E, 0x96F6, 0x4E94]"
  by (simp add: int2cn_eq_spec int2cn_spec_def render_tens_def glyph_def)

text \<open>
  C7. \<open>int2cn\<close> raises nothing and renders as the specification says: 0 as U+96F6; 1 to 9
  as the digit's glyph; 10 to 99 as the tens glyph (left out when it is 1), U+5341 and
  the units glyph when the units are not 0; 100 to 999 as the hundreds glyph, U+767E and,
  for a remainder of 1 to 9, the filler U+96F6 and the glyph, for a remainder of 10 to 99
  the rule of the tens; any other integer as its decimal text \<open>str(n)\<close>. In particular
  0, 12 and 105 come out as in the specification's examples.
\<close>

theorem int2cn_renders:
  "int2cn n = Inr (int2cn_spec n) \<and>
   int2cn 0 = Inr [0x96F6] \<and>
   int2cn 12 = Inr [0x5341, 0x4E8C] \<and>
   int2cn 105 = Inr [0x4E00, 0x767E, 0x96F6, 0x4E94]"
  by (simp only: int2cn_eq_spec [of n] int2cn_0 int2cn_12 int2cn_105 simp_thms)

theorem int2cn_renders_witness:
  "int2cn 1234 = Inr (asc ''1234'') \<and> int2cn (- 5) = Inr (asc ''-5'') \<and>
   int2cn 115 = Inr [0x4E00, 0x767E, 0x5341, 0x4E94] \<and>
   int2cn 20 = Inr [0x4E8C, 0x5341]"
  using int2cn_renders [of 1234] int2cn_renders [of "- 5"] int2cn_renders [of 115]
    int2cn_renders [of 20]
  by (simp add: int2cn_spec_def render_tens_def glyph_def str_int_def str_nat_step
      str_nat_small asc_def)

text \<open>
  C2. For every integer \<open>n\<close> with \<open>0 \<le> n < 1000\<close>, \<open>int2cn n\<close> returns a text, and
  \<open>cn2int\<close> of that text returns \<open>n\<close>.
\<close>

theorem cn2int_int2cn_round_trip:
  "0 \<le> n \<Longrightarrow> n < 1000 \<Longrightarrow> \<exists>s. int2cn n = Inr s \<and> cn2int s = Inr (Some n)"
  by (simp add: int2cn_eq_spec round_trip)

theorem cn2int_int2cn_round_trip_witness:
  "int2cn 105 = Inr [0x4E00, 0x767E, 0x96F6, 0x4E94] \<and>
   cn2int [0x4E00, 0x767E, 0x96F6, 0x4E94] = Inr (Some 105)"
  using cn2int_int2cn_round_trip [of 105] by (simp add: int2cn_105)

text \<open>
  C5. When \<open>cn2int\<close> returns a number for an input whose trimmed text is not a string of
  digits, the number is the specification's left-to-right evaluation of the trimmed
  text (pending digit and running total, the leftover digit added at the end). The
  specification's four examples evaluate to 12, 20, 105 and 3.
\<close>

theorem cn2int_evaluates:
  "(\<not> isdigit (strip s) \<and> cn2int s = Inr (Some n) \<longrightarrow> n = spec_eval (strip s)) \<and>
   cn2int [0x5341, 0x4E8C] = Inr (Some 12) \<and>
   cn2int [0x4E8C, 0x5341] = Inr (Some 20) \<and>
   cn2int [0x4E00, 0x767E, 0x96F6, 0x4E94] = Inr (Some 105) \<and>
   cn2int (asc ''3'') = Inr (Some 3)"
  using cn2int_eval [of s n]
  by (simp only: cn2int_shi_er cn2int_er_shi cn2int_105 cn2int_3 simp_thms) blast

theorem cn2int_evaluates_witness:
  "\<not> isdigit (strip [0x4E09, 0x20, 0x767E, 0x4E8C, 0x62FE]) \<and>
   cn2int [0x4E09, 0x20, 0x767E, 0x4E8C, 0x62FE] = Inr (Some 320) \<and>
   spec_eval (strip [0x4E09, 0x20, 0x767E, 0x4E8C, 0x62FE]) = 320"
proof -
  let ?s = "[0x4E09, 0x20, 0x767E, 0x4E8C, 0x62FE] :: ustr"
  have st: "strip ?s = ?s" by (simp add: strip_id isspace_def)
  have d: "\<not> isdigit (strip ?s)" by (simp add: st isdigit_def cjk_not_digit)
  have c: "cn2int ?s = Inr (Some 320)"
    using d by (simp add: cn2int_def st NUM_MAP_def UNIT_MAP_def isspace_def)
  from cn2int_evaluates [of ?s 320] d c have "(320::int) = spec_eval (strip ?s)" by blast
  with d c show ?thesis by simp
qed

text \<open>
  C6. \<open>cn2int\<close> takes the branch of the plain digits by \<open>str.isdigit\<close>, which also
  accepts digits that are no decimal digits. The superscript two U+00B2 is such a
  character: the trimmed input is not empty, it is no string of decimal digits, and its
  one character is neither blank nor of the digit class nor of the unit class, so the
  conversion should give \<open>None\<close>; the code passes it to \<open>int\<close>, which raises.
\<close>

theorem cn2int_superscript_raises:
  "cn2int [0xB2] = Inl ValueError \<and> strip [0xB2] = [0xB2] \<and> isdigit [0xB2] \<and>
   decimal_value 0xB2 = None \<and> unrecognized 0xB2"
  by (simp add: cn2int_def strip_id isspace_def isdigit_def isdigit_char_def py_int_def
      decimal_value_def nd_starts_def digit_only_ranges_def unrecognized_def NUM_MAP_def
      UNIT_MAP_def)

section \<open>Properties of the group index\<close>

lemma first_longest_Some:
  assumes "es \<noteq> []"
  shows "\<exists>y. first_longest es = Some y \<and> length (fst y) = Max (set (map (\<lambda>e. length (fst e)) es))"
proof -
  define M where "M = Max (set (map (\<lambda>e. length (fst e)) es))"
  have "M \<in> set (map (\<lambda>e. length (fst e)) es)"
    unfolding M_def using assms by (intro Max_in) auto
  then obtain e where e: "e \<in> set es" "length (fst e) = M" by auto
  have "find (\<lambda>e. length (fst e) = M) es \<noteq> None"
    unfolding find_None_iff using e by blast
  then obtain y where y: "find (\<lambda>e. length (fst e) = M) es = Some y" by auto
  then have "length (fst y) = M" unfolding find_Some_iff by blast
  with y assms show ?thesis unfolding first_longest_def M_def by simp
qed

lemma first_longest_Cons:
  "first_longest (x # xs) =
     (case first_longest xs of
        None \<Rightarrow> Some x
      | Some y \<Rightarrow> if length (fst y) \<le> length (fst x) then Some x else Some y)"
proof (cases "xs = []")
  case True
  then show ?thesis by (simp add: first_longest_def)
next
  case False
  let ?M = "Max (set (map (\<lambda>e. length (fst e)) xs))"
  obtain y where y: "first_longest xs = Some y" "length (fst y) = ?M"
    using first_longest_Some [OF False] by blast
  have f: "find (\<lambda>e. length (fst e) = ?M) xs = Some y" using y(1) False by (simp add: first_longest_def)
  have m: "Max (set (map (\<lambda>e. length (fst e)) (x # xs))) = max (length (fst x)) ?M"
    using False by (simp add: Max_insert del: Max_insert2)
  show ?thesis
  proof (cases "?M \<le> length (fst x)")
    case True
    then show ?thesis using y m by (simp add: first_longest_def max_def)
  next
    case False
    then have "max (length (fst x)) ?M = ?M" "length (fst x) \<noteq> ?M" by auto
    then show ?thesis using y f m False by (simp add: first_longest_def)
  qed
qed

lemma scan_best_first_longest:
  "scan_best items key best =
     (case first_longest (filter (contains_either key) items) of
        None \<Rightarrow> best
      | Some e \<Rightarrow>
          (case best of
             None \<Rightarrow> Some (fst (snd e), snd (snd e), length (fst e))
           | Some b \<Rightarrow>
               if length (fst e) > snd (snd b) then Some (fst (snd e), snd (snd e), length (fst e))
               else best))"
proof (induction items arbitrary: best)
  case Nil
  show ?case by (simp add: first_longest_def)
next
  case (Cons x items)
  obtain ak g a where x: "x = (ak, g, a)" by (cases x) auto
  show ?case
  proof (cases "contains_either key x")
    case False
    then show ?thesis using Cons [of best] x by (simp add: contains_either_def)
  next
    case True
    then have c: "str_in ak key \<or> str_in key ak" using x by (simp add: contains_either_def)
    show ?thesis
    proof (cases best)
      case None
      then show ?thesis using c x True Cons [of "Some (g, a, length ak)"]
        by (auto simp: first_longest_Cons split: option.splits)
    next
      case (Some b)
      then show ?thesis using c x True Cons [of "Some (g, a, length ak)"] Cons [of "Some b"]
        by (auto simp: first_longest_Cons split: option.splits)
    qed
  qed
qed

lemma find_group_in_spec:
  "find_group_in nm text =
     (case map_of nm (normalize_model_key text) of
        Some (g, a) \<Rightarrow> (Some g, Some a)
      | None \<Rightarrow>
          (case first_longest (filter (contains_either (normalize_model_key text)) nm) of
             None \<Rightarrow> (None, None)
           | Some (ak, g, a) \<Rightarrow> (Some g, Some a)))"
  by (simp add: find_group_in_def Let_def scan_best_first_longest split: option.splits prod.splits)

lemma sub_runs_empty: "sub_runs cls [] s = filter (\<lambda>c. \<not> cls c) s"
proof (induction cls "[] :: ustr" s rule: sub_runs.induct)
  case (1 cls)
  show ?case by simp
next
  case (2 cls c s)
  have d: "filter (\<lambda>c. \<not> cls c) (dropWhile cls s) = filter (\<lambda>c. \<not> cls c) s"
    by (induction s) auto
  show ?case using 2 d by (cases "cls c") simp_all
qed

lemma filter_dropWhile: "(\<And>c. Q c \<Longrightarrow> \<not> P c) \<Longrightarrow> filter P (dropWhile Q s) = filter P s"
  by (induction s) auto

lemma filter_strip: "filter (\<lambda>c. \<not> connector c) (strip s) = filter (\<lambda>c. \<not> connector c) s"
proof -
  have q: "\<And>c. isspace c \<Longrightarrow> \<not> \<not> connector c" by (simp add: connector_def)
  have "filter (\<lambda>c. \<not> connector c) (strip s) =
        rev (filter (\<lambda>c. \<not> connector c) (dropWhile isspace (rev (dropWhile isspace s))))"
    by (simp add: strip_def rev_filter)
  also have "\<dots> = rev (filter (\<lambda>c. \<not> connector c) (rev (dropWhile isspace s)))"
    using filter_dropWhile [of isspace "\<lambda>c. \<not> connector c"] q by simp
  also have "\<dots> = filter (\<lambda>c. \<not> connector c) (dropWhile isspace s)"
    by (simp add: rev_filter)
  also have "\<dots> = filter (\<lambda>c. \<not> connector c) s"
    using filter_dropWhile [of isspace "\<lambda>c. \<not> connector c"] q by simp
  finally show ?thesis .
qed

lemma normalize_spec: "normalize_model_key s = spec_normalize s"
  by (simp add: normalize_model_key_def spec_normalize_def sub_runs_empty filter_strip)

lemma str_in_Nil: "str_in [] y"
  by (induction y) auto

lemma dict_of_pairs_simps:
  "dict_of_pairs d [] = d"
  "dict_of_pairs d ((k, v) # ps) = dict_of_pairs (dict_set d k v) ps"
  by (simp_all add: dict_of_pairs_def)

lemma dict_of_pairs_append: "dict_of_pairs d (ps @ qs) = dict_of_pairs (dict_of_pairs d ps) qs"
  by (simp add: dict_of_pairs_def)

lemma init_aliases_normalized:
  "normalized_model_to_group (init_aliases g as ix) =
     dict_of_pairs (normalized_model_to_group ix)
       (map (\<lambda>a. (normalize_model_key (strip a), g, strip a)) (filter (\<lambda>a. strip a \<noteq> []) as))"
  by (induction as arbitrary: ix) (simp_all add: dict_of_pairs_simps Let_def)

lemma init_aliases_canonical:
  "group_to_canonical_model (init_aliases g as ix) = group_to_canonical_model ix"
  by (induction as arbitrary: ix) (simp_all add: Let_def)

lemma init_groups_normalized:
  "normalized_model_to_group (init_groups groups ix) =
     dict_of_pairs (normalized_model_to_group ix) (alias_pairs groups)"
proof (induction groups arbitrary: ix)
  case Nil
  show ?case by (simp add: alias_pairs_def dict_of_pairs_simps)
next
  case (Cons x groups)
  obtain g as where x: "x = (g, as)" by (cases x) auto
  have n: "normalized_model_to_group (case as of [] \<Rightarrow> ix | a0 # _ \<Rightarrow>
               ix\<lparr>group_to_canonical_model :=
                    dict_set (group_to_canonical_model ix) g (strip a0)\<rparr>) = normalized_model_to_group ix"
    by (cases as) simp_all
  show ?case
    unfolding x init_groups.simps Cons init_aliases_normalized n
    by (simp add: alias_pairs_def dict_of_pairs_append)
qed

lemma init_groups_canonical:
  "group_to_canonical_model (init_groups groups ix) =
     dict_of_pairs (group_to_canonical_model ix) (canonical_pairs groups)"
proof (induction groups arbitrary: ix)
  case Nil
  show ?case by (simp add: canonical_pairs_def dict_of_pairs_simps)
next
  case (Cons x groups)
  obtain g as where x: "x = (g, as)" by (cases x) auto
  show ?case
    unfolding x init_groups.simps Cons init_aliases_canonical
    by (cases as) (simp_all add: canonical_pairs_def dict_of_pairs_simps)
qed

lemma dict_set_hit: "dict_set ((k, v') # d) k v = (k, v) # d"
  by simp

lemma dict_set_miss: "k' \<noteq> k \<Longrightarrow> dict_set ((k', v') # d) k v = (k', v') # dict_set d k v"
  by simp

lemma isspace_fast:
  "isspace 0x20"
  "33 \<le> c \<Longrightarrow> c < 0x85 \<Longrightarrow> \<not> isspace c"
  "0x3001 \<le> c \<Longrightarrow> \<not> isspace c"
  by (auto simp: isspace_def)

lemma connector_fast:
  "connector 0x20" "connector 0x2D" "connector 0x5F"
  "0x30 \<le> c \<Longrightarrow> c < 0x5F \<Longrightarrow> \<not> connector c"
  "0x60 \<le> c \<Longrightarrow> c < 0x85 \<Longrightarrow> \<not> connector c"
  "0x3001 \<le> c \<Longrightarrow> \<not> connector c"
  by (auto simp: connector_def isspace_def)

lemma find_hit: "P x \<Longrightarrow> find P (x # xs) = Some x"
  by simp

lemma find_miss: "\<not> P x \<Longrightarrow> find P (x # xs) = find P xs"
  by simp

lemma case_lookup_None:
  "list_all (\<lambda>(lo, hi, step, t). c < lo \<or> hi < c) tab \<Longrightarrow> case_lookup tab c = None"
proof -
  assume a: "list_all (\<lambda>(lo, hi, step, t). c < lo \<or> hi < c) tab"
  have "find (\<lambda>(lo, hi, step, t). lo \<le> c \<and> c \<le> hi \<and> (c - lo) mod step = 0) tab = None"
    unfolding find_None_iff using a by (auto simp: list_all_iff)
  then show ?thesis by (simp add: case_lookup_def)
qed

lemma lower_char_keep:
  "c < 0x41 \<Longrightarrow> lower_char c = [c]"
  "0x5B \<le> c \<Longrightarrow> c < 0xC0 \<Longrightarrow> lower_char c = [c]"
  "0x1FFD \<le> c \<Longrightarrow> c < 0x2126 \<Longrightarrow> lower_char c = [c]"
  "0x2CF3 \<le> c \<Longrightarrow> c < 0xA640 \<Longrightarrow> lower_char c = [c]"
  by (simp_all add: lower_char_def case_lookup_None lower_ranges_def)

lemma lower_char_upper: "0x41 \<le> c \<Longrightarrow> c \<le> 0x5A \<Longrightarrow> lower_char c = [c + 32]"
  by (simp add: lower_char_def case_lookup_def lower_ranges_def)

lemma lower_char_kelvin: "lower_char 0x212A = [0x6B]"
  by (simp add: lower_char_def case_lookup_def lower_ranges_def find_hit find_miss
      del: find.simps(2))

lemma do_lower_other:
  "c \<noteq> 0x3A3 \<Longrightarrow> do_lower b (c # s) = lower_char c @ do_lower (c # b) s"
  by (simp add: do_lower.simps)

lemma do_lower_fast:
  "do_lower b [] = []"
  "c < 0x41 \<Longrightarrow> do_lower b (c # s) = c # do_lower (c # b) s"
  "0x5B \<le> c \<Longrightarrow> c < 0xC0 \<Longrightarrow> do_lower b (c # s) = c # do_lower (c # b) s"
  "0x1FFD \<le> c \<Longrightarrow> c < 0x2126 \<Longrightarrow> do_lower b (c # s) = c # do_lower (c # b) s"
  "0x2CF3 \<le> c \<Longrightarrow> c < 0xA640 \<Longrightarrow> do_lower b (c # s) = c # do_lower (c # b) s"
  "0x41 \<le> c \<Longrightarrow> c \<le> 0x5A \<Longrightarrow> do_lower b (c # s) = (c + 32) # do_lower (c # b) s"
  by (simp_all add: do_lower.simps lower_char_keep lower_char_upper)

lemmas lower_fast = lower_def do_lower_fast

lemma strip_fast: "\<not> isspace c \<Longrightarrow> \<not> isspace (last (c # s)) \<Longrightarrow> strip (c # s) = c # s"
  using strip_id [of "c # s"] by simp

lemma PHONE_GROUPS_value:
  "PHONE_GROUPS =
    [
     ([0x31, 0x2D, 0x31], [[0x5C0F, 0x7C73, 0x31, 0x35], [0x78, 0x69, 0x61, 0x6F, 0x6D,
      0x69, 0x31, 0x35]]),
     ([0x31, 0x2D, 0x32], [[0x4E00, 0x52A0, 0x31, 0x33], [0x6F, 0x6E, 0x65, 0x70, 0x6C,
      0x75, 0x73, 0x31, 0x33]]),
     ([0x31, 0x2D, 0x33], [[0x6F, 0x70, 0x70, 0x6F, 0x20, 0x66, 0x69, 0x6E, 0x64, 0x20,
      0x78, 0x38], [0x6F, 0x70, 0x70, 0x6F, 0x66, 0x69, 0x6E, 0x64, 0x78, 0x38, 0x70,
      0x72, 0x6F], [0x66, 0x69, 0x6E, 0x64, 0x78, 0x38, 0x70, 0x72, 0x6F]]),
     ([0x31, 0x2D, 0x34], [[0x76, 0x69, 0x76, 0x6F, 0x20, 0x69, 0x71, 0x6F, 0x6F, 0x31,
      0x33], [0x76, 0x69, 0x76, 0x6F, 0x69, 0x71, 0x6F, 0x6F, 0x31, 0x33], [0x69, 0x71,
      0x6F, 0x6F, 0x31, 0x33]]),
     ([0x31, 0x2D, 0x35], [[0x4E09, 0x661F, 0x73, 0x32, 0x34], [0x73, 0x61, 0x6D, 0x73,
      0x75, 0x6E, 0x67, 0x73, 0x32, 0x34]]),
     ([0x32, 0x2D, 0x31], [[0x76, 0x69, 0x76, 0x6F, 0x20, 0x78, 0x32, 0x30, 0x30, 0x20,
      0x70, 0x72, 0x6F], [0x76, 0x69, 0x76, 0x6F, 0x78, 0x32, 0x30, 0x30, 0x70, 0x72,
      0x6F], [0x78, 0x32, 0x30, 0x30, 0x70, 0x72, 0x6F]]),
     ([0x32, 0x2D, 0x32], [[0x82F9, 0x679C, 0x31, 0x35], [0x69, 0x70, 0x68, 0x6F, 0x6E,
      0x65, 0x31, 0x35]]),
     ([0x32, 0x2D, 0x33], [[0x8363, 0x8000, 0x6D, 0x61, 0x67, 0x69, 0x63, 0x37], [0x68,
      0x6F, 0x6E, 0x6F, 0x72, 0x6D, 0x61, 0x67, 0x69, 0x63, 0x37], [0x6D, 0x61, 0x67,
      0x69, 0x63, 0x37]]),
     ([0x32, 0x2D, 0x34], [[0x7EA2, 0x7C73, 0x6B, 0x38, 0x30, 0x70, 0x72, 0x6F], [0x72,
      0x65, 0x64, 0x6D, 0x69, 0x6B, 0x38, 0x30, 0x70, 0x72, 0x6F], [0x6B, 0x38, 0x30,
      0x70, 0x72, 0x6F]]),
     ([0x32, 0x2D, 0x35], [[0x534E, 0x4E3A, 0x70, 0x34, 0x30, 0x70, 0x72, 0x6F, 0x70,
      0x6C, 0x75, 0x73], [0x68, 0x75, 0x61, 0x77, 0x65, 0x69, 0x70, 0x34, 0x30, 0x70,
      0x72, 0x6F, 0x70, 0x6C, 0x75, 0x73], [0x70, 0x34, 0x30, 0x70, 0x72, 0x6F, 0x70,
      0x6C, 0x75, 0x73]]),
     ([0x33, 0x2D, 0x31], [[0x534E, 0x4E3A, 0x6D, 0x61, 0x74, 0x65, 0x36, 0x30], [0x68,
      0x75, 0x61, 0x77, 0x65, 0x69, 0x6D, 0x61, 0x74, 0x65, 0x36, 0x30], [0x6D, 0x61,
      0x74, 0x65, 0x36, 0x30]]),
     ([0x33, 0x2D, 0x32], [[0x4E00, 0x52A0, 0x61, 0x63, 0x65, 0x33], [0x6F, 0x6E, 0x65,
      0x70, 0x6C, 0x75, 0x73, 0x61, 0x63, 0x65, 0x33], [0x61, 0x63, 0x65, 0x33]]),
     ([0x33, 0x2D, 0x33], [[0x5C0F, 0x7C73, 0x31, 0x34], [0x78, 0x69, 0x61, 0x6F, 0x6D,
      0x69, 0x31, 0x34]]),
     ([0x33, 0x2D, 0x34], [[0x8363, 0x8000, 0x6D, 0x61, 0x67, 0x69, 0x63, 0x36], [0x68,
      0x6F, 0x6E, 0x6F, 0x72, 0x6D, 0x61, 0x67, 0x69, 0x63, 0x36], [0x6D, 0x61, 0x67,
      0x69, 0x63, 0x36]]),
     ([0x33, 0x2D, 0x35], [[0x8363, 0x8000, 0x6D, 0x61, 0x67, 0x69, 0x63, 0x76, 0x73,
      0x33], [0x68, 0x6F, 0x6E, 0x6F, 0x72, 0x6D, 0x61, 0x67, 0x69, 0x63, 0x76, 0x73,
      0x33], [0x6D, 0x61, 0x67, 0x69, 0x63, 0x76, 0x73, 0x33]]),
     ([0x34, 0x2D, 0x31], [[0x534E, 0x4E3A, 0x70, 0x36, 0x30], [0x68, 0x75, 0x61, 0x77,
      0x65, 0x69, 0x70, 0x36, 0x30], [0x70, 0x36, 0x30]]),
     ([0x34, 0x2D, 0x32], [[0x534E, 0x4E3A, 0x6E, 0x6F, 0x76, 0x61, 0x31, 0x33], [0x68,
      0x75, 0x61, 0x77, 0x65, 0x69, 0x6E, 0x6F, 0x76, 0x61, 0x31, 0x33], [0x6E, 0x6F,
      0x76, 0x61, 0x31, 0x33]]),
     ([0x34, 0x2D, 0x33], [[0x534E, 0x4E3A, 0x6D, 0x61, 0x74, 0x65, 0x35, 0x30, 0x70,
      0x72, 0x6F], [0x68, 0x75, 0x61, 0x77, 0x65, 0x69, 0x6D, 0x61, 0x74, 0x65, 0x35,
      0x30, 0x70, 0x72, 0x6F], [0x6D, 0x61, 0x74, 0x65, 0x35, 0x30, 0x70, 0x72, 0x6F]]),
     ([0x34, 0x2D, 0x34], [[0x534E, 0x4E3A, 0x6E, 0x6F, 0x76, 0x61, 0x31, 0x34, 0x70,
      0x72, 0x6F], [0x68, 0x75, 0x61, 0x77, 0x65, 0x69, 0x6E, 0x6F, 0x76, 0x61, 0x31,
      0x34, 0x70, 0x72, 0x6F], [0x6E, 0x6F, 0x76, 0x61, 0x31, 0x34, 0x70, 0x72, 0x6F]]),
     ([0x34, 0x2D, 0x35], [[0x534E, 0x4E3A, 0x6E, 0x6F, 0x76, 0x61, 0x31, 0x34, 0x75,
      0x6C, 0x74, 0x72, 0x61], [0x68, 0x75, 0x61, 0x77, 0x65, 0x69, 0x6E, 0x6F, 0x76,
      0x61, 0x31, 0x34, 0x75, 0x6C, 0x74, 0x72, 0x61], [0x6E, 0x6F, 0x76, 0x61, 0x31,
      0x34, 0x75, 0x6C, 0x74, 0x72, 0x61]]),
     ([0x35, 0x2D, 0x31], [[0x534E, 0x4E3A, 0x70, 0x37, 0x30, 0x70, 0x72, 0x6F], [0x68,
      0x75, 0x61, 0x77, 0x65, 0x69, 0x70, 0x37, 0x30, 0x70, 0x72, 0x6F], [0x70, 0x37,
      0x30, 0x70, 0x72, 0x6F]]),
     ([0x35, 0x2D, 0x32], [[0x534E, 0x4E3A, 0x6D, 0x61, 0x74, 0x65, 0x78, 0x35], [0x68,
      0x75, 0x61, 0x77, 0x65, 0x69, 0x6D, 0x61, 0x74, 0x65, 0x78, 0x35], [0x6D, 0x61,
      0x74, 0x65, 0x78, 0x35]]),
     ([0x35, 0x2D, 0x33], [[0x76, 0x69, 0x76, 0x6F, 0x20, 0x73, 0x31, 0x39, 0x20, 0x70,
      0x72, 0x6F], [0x76, 0x69, 0x76, 0x6F, 0x73, 0x31, 0x39, 0x70, 0x72, 0x6F], [0x73,
      0x31, 0x39, 0x70, 0x72, 0x6F]]),
     ([0x35, 0x2D, 0x34], [[0x76, 0x69, 0x76, 0x6F, 0x20, 0x78, 0x31, 0x30, 0x30, 0x20,
      0x70, 0x72, 0x6F], [0x76, 0x69, 0x76, 0x6F, 0x78, 0x31, 0x30, 0x30, 0x70, 0x72,
      0x6F], [0x78, 0x31, 0x30, 0x30, 0x70, 0x72, 0x6F]]),
     ([0x35, 0x2D, 0x35], [[0x6F, 0x70, 0x70, 0x6F, 0x20, 0x66, 0x69, 0x6E, 0x64, 0x20,
      0x78, 0x37], [0x6F, 0x70, 0x70, 0x6F, 0x66, 0x69, 0x6E, 0x64, 0x78, 0x37], [0x66,
      0x69, 0x6E, 0x64, 0x78, 0x37]]),
     ([0x35, 0x2D, 0x36], [[0x6F, 0x70, 0x70, 0x6F, 0x20, 0x66, 0x69, 0x6E, 0x64, 0x20,
      0x6E, 0x33], [0x6F, 0x70, 0x70, 0x6F, 0x66, 0x69, 0x6E, 0x64, 0x6E, 0x33], [0x66,
      0x69, 0x6E, 0x64, 0x6E, 0x33]])]"
  by (simp add: PHONE_GROUPS_def asc_def)

lemma alias_pairs_value:
  "alias_pairs PHONE_GROUPS =
    [
     ([0x5C0F, 0x7C73, 0x31, 0x35], [0x31, 0x2D, 0x31], [0x5C0F, 0x7C73, 0x31, 0x35]),
     ([0x78, 0x69, 0x61, 0x6F, 0x6D, 0x69, 0x31, 0x35], [0x31, 0x2D, 0x31], [0x78,
      0x69, 0x61, 0x6F, 0x6D, 0x69, 0x31, 0x35]),
     ([0x4E00, 0x52A0, 0x31, 0x33], [0x31, 0x2D, 0x32], [0x4E00, 0x52A0, 0x31, 0x33]),
     ([0x6F, 0x6E, 0x65, 0x70, 0x6C, 0x75, 0x73, 0x31, 0x33], [0x31, 0x2D, 0x32],
      [0x6F, 0x6E, 0x65, 0x70, 0x6C, 0x75, 0x73, 0x31, 0x33]),
     ([0x6F, 0x70, 0x70, 0x6F, 0x66, 0x69, 0x6E, 0x64, 0x78, 0x38], [0x31, 0x2D, 0x33],
      [0x6F, 0x70, 0x70, 0x6F, 0x20, 0x66, 0x69, 0x6E, 0x64, 0x20, 0x78, 0x38]),
     ([0x6F, 0x70, 0x70, 0x6F, 0x66, 0x69, 0x6E, 0x64, 0x78, 0x38, 0x70, 0x72, 0x6F],
      [0x31, 0x2D, 0x33], [0x6F, 0x70, 0x70, 0x6F, 0x66, 0x69, 0x6E, 0x64, 0x78, 0x38,
      0x70, 0x72, 0x6F]),
     ([0x66, 0x69, 0x6E, 0x64, 0x78, 0x38, 0x70, 0x72, 0x6F], [0x31, 0x2D, 0x33],
      [0x66, 0x69, 0x6E, 0x64, 0x78, 0x38, 0x70, 0x72, 0x6F]),
     ([0x76, 0x69, 0x76, 0x6F, 0x69, 0x71, 0x6F, 0x6F, 0x31, 0x33], [0x31, 0x2D, 0x34],
      [0x76, 0x69, 0x76, 0x6F, 0x20, 0x69, 0x71, 0x6F, 0x6F, 0x31, 0x33]),
     ([0x76, 0x69, 0x76, 0x6F, 0x69, 0x71, 0x6F, 0x6F, 0x31, 0x33], [0x31, 0x2D, 0x34],
      [0x76, 0x69, 0x76, 0x6F, 0x69, 0x71, 0x6F, 0x6F, 0x31, 0x33]),
     ([0x69, 0x71, 0x6F, 0x6F, 0x31, 0x33], [0x31, 0x2D, 0x34], [0x69, 0x71, 0x6F,
      0x6F, 0x31, 0x33]),
     ([0x4E09, 0x661F, 0x73, 0x32, 0x34], [0x31, 0x2D, 0x35], [0x4E09, 0x661F, 0x73,
      0x32, 0x34]),
     ([0x73, 0x61, 0x6D, 0x73, 0x75, 0x6E, 0x67, 0x73, 0x32, 0x34], [0x31, 0x2D, 0x35],
      [0x73, 0x61, 0x6D, 0x73, 0x75, 0x6E, 0x67, 0x73, 0x32, 0x34]),
     ([0x76, 0x69, 0x76, 0x6F, 0x78, 0x32, 0x30, 0x30, 0x70, 0x72, 0x6F], [0x32, 0x2D,
      0x31], [0x76, 0x69, 0x76, 0x6F, 0x20, 0x78, 0x32, 0x30, 0x30, 0x20, 0x70, 0x72,
      0x6F]),
     ([0x76, 0x69, 0x76, 0x6F, 0x78, 0x32, 0x30, 0x30, 0x70, 0x72, 0x6F], [0x32, 0x2D,
      0x31], [0x76, 0x69, 0x76, 0x6F, 0x78, 0x32, 0x30, 0x30, 0x70, 0x72, 0x6F]),
     ([0x78, 0x32, 0x30, 0x30, 0x70, 0x72, 0x6F], [0x32, 0x2D, 0x31], [0x78, 0x32,
      0x30, 0x30, 0x70, 0x72, 0x6F]),
     ([0x82F9, 0x679C, 0x31, 0x35], [0x32, 0x2D, 0x32], [0x82F9, 0x679C, 0x31, 0x35]),
     ([0x69, 0x70, 0x68, 0x6F, 0x6E, 0x65, 0x31, 0x35], [0x32, 0x2D, 0x32], [0x69,
      0x70, 0x68, 0x6F, 0x6E, 0x65, 0x31, 0x35]),
     ([0x8363, 0x8000, 0x6D, 0x61, 0x67, 0x69, 0x63, 0x37], [0x32, 0x2D, 0x33],
      [0x8363, 0x8000, 0x6D, 0x61, 0x67, 0x69, 0x63, 0x37]),
     ([0x68, 0x6F, 0x6E, 0x6F, 0x72, 0x6D, 0x61, 0x67, 0x69, 0x63, 0x37], [0x32, 0x2D,
      0x33], [0x68, 0x6F, 0x6E, 0x6F, 0x72, 0x6D, 0x61, 0x67, 0x69, 0x63, 0x37]),
     ([0x6D, 0x61, 0x67, 0x69, 0x63, 0x37], [0x32, 0x2D, 0x33], [0x6D, 0x61, 0x67,
      0x69, 0x63, 0x37]),
     ([0x7EA2, 0x7C73, 0x6B, 0x38, 0x30, 0x70, 0x72, 0x6F], [0x32, 0x2D, 0x34],
      [0x7EA2, 0x7C73, 0x6B, 0x38, 0x30, 0x70, 0x72, 0x6F]),
     ([0x72, 0x65, 0x64, 0x6D, 0x69, 0x6B, 0x38, 0x30, 0x70, 0x72, 0x6F], [0x32, 0x2D,
      0x34], [0x72, 0x65, 0x64, 0x6D, 0x69, 0x6B, 0x38, 0x30, 0x70, 0x72, 0x6F]),
     ([0x6B, 0x38, 0x30, 0x70, 0x72, 0x6F], [0x32, 0x2D, 0x34], [0x6B, 0x38, 0x30,
      0x70, 0x72, 0x6F]),
     ([0x534E, 0x4E3A, 0x70, 0x34, 0x30, 0x70, 0x72, 0x6F, 0x70, 0x6C, 0x75, 0x73],
      [0x32, 0x2D, 0x35], [0x534E, 0x4E3A, 0x70, 0x34, 0x30, 0x70, 0x72, 0x6F, 0x70,
      0x6C, 0x75, 0x73]),
     ([0x68, 0x75, 0x61, 0x77, 0x65, 0x69, 0x70, 0x34, 0x30, 0x70, 0x72, 0x6F, 0x70,
      0x6C, 0x75, 0x73], [0x32, 0x2D, 0x35], [0x68, 0x75, 0x61, 0x77, 0x65, 0x69, 0x70,
      0x34, 0x30, 0x70, 0x72, 0x6F, 0x70, 0x6C, 0x75, 0x73]),
     ([0x70, 0x34, 0x30, 0x70, 0x72, 0x6F, 0x70, 0x6C, 0x75, 0x73], [0x32, 0x2D, 0x35],
      [0x70, 0x34, 0x30, 0x70, 0x72, 0x6F, 0x70, 0x6C, 0x75, 0x73]),
     ([0x534E, 0x4E3A, 0x6D, 0x61, 0x74, 0x65, 0x36, 0x30], [0x33, 0x2D, 0x31],
      [0x534E, 0x4E3A, 0x6D, 0x61, 0x74, 0x65, 0x36, 0x30]),
     ([0x68, 0x75, 0x61, 0x77, 0x65, 0x69, 0x6D, 0x61, 0x74, 0x65, 0x36, 0x30], [0x33,
      0x2D, 0x31], [0x68, 0x75, 0x61, 0x77, 0x65, 0x69, 0x6D, 0x61, 0x74, 0x65, 0x36,
      0x30]),
     ([0x6D, 0x61, 0x74, 0x65, 0x36, 0x30], [0x33, 0x2D, 0x31], [0x6D, 0x61, 0x74,
      0x65, 0x36, 0x30]),
     ([0x4E00, 0x52A0, 0x61, 0x63, 0x65, 0x33], [0x33, 0x2D, 0x32], [0x4E00, 0x52A0,
      0x61, 0x63, 0x65, 0x33]),
     ([0x6F, 0x6E, 0x65, 0x70, 0x6C, 0x75, 0x73, 0x61, 0x63, 0x65, 0x33], [0x33, 0x2D,
      0x32], [0x6F, 0x6E, 0x65, 0x70, 0x6C, 0x75, 0x73, 0x61, 0x63, 0x65, 0x33]),
     ([0x61, 0x63, 0x65, 0x33], [0x33, 0x2D, 0x32], [0x61, 0x63, 0x65, 0x33]),
     ([0x5C0F, 0x7C73, 0x31, 0x34], [0x33, 0x2D, 0x33], [0x5C0F, 0x7C73, 0x31, 0x34]),
     ([0x78, 0x69, 0x61, 0x6F, 0x6D, 0x69, 0x31, 0x34], [0x33, 0x2D, 0x33], [0x78,
      0x69, 0x61, 0x6F, 0x6D, 0x69, 0x31, 0x34]),
     ([0x8363, 0x8000, 0x6D, 0x61, 0x67, 0x69, 0x63, 0x36], [0x33, 0x2D, 0x34],
      [0x8363, 0x8000, 0x6D, 0x61, 0x67, 0x69, 0x63, 0x36]),
     ([0x68, 0x6F, 0x6E, 0x6F, 0x72, 0x6D, 0x61, 0x67, 0x69, 0x63, 0x36], [0x33, 0x2D,
      0x34], [0x68, 0x6F, 0x6E, 0x6F, 0x72, 0x6D, 0x61, 0x67, 0x69, 0x63, 0x36]),
     ([0x6D, 0x61, 0x67, 0x69, 0x63, 0x36], [0x33, 0x2D, 0x34], [0x6D, 0x61, 0x67,
      0x69, 0x63, 0x36]),
     ([0x8363, 0x8000, 0x6D, 0x61, 0x67, 0x69, 0x63, 0x76, 0x73, 0x33], [0x33, 0x2D,
      0x35], [0x8363, 0x8000, 0x6D, 0x61, 0x67, 0x69, 0x63, 0x76, 0x73, 0x33]),
     ([0x68, 0x6F, 0x6E, 0x6F, 0x72, 0x6D, 0x61, 0x67, 0x69, 0x63, 0x76, 0x73, 0x33],
      [0x33, 0x2D, 0x35], [0x68, 0x6F, 0x6E, 0x6F, 0x72, 0x6D, 0x61, 0x67, 0x69, 0x63,
      0x76, 0x73, 0x33]),
     ([0x6D, 0x61, 0x67, 0x69, 0x63, 0x76, 0x73, 0x33], [0x33, 0x2D, 0x35], [0x6D,
      0x61, 0x67, 0x69, 0x63, 0x76, 0x73, 0x33]),
     ([0x534E, 0x4E3A, 0x70, 0x36, 0x30], [0x34, 0x2D, 0x31], [0x534E, 0x4E3A, 0x70,
      0x36, 0x30]),
     ([0x68, 0x75, 0x61, 0x77, 0x65, 0x69, 0x70, 0x36, 0x30], [0x34, 0x2D, 0x31],
      [0x68, 0x75, 0x61, 0x77, 0x65, 0x69, 0x70, 0x36, 0x30]),
     ([0x70, 0x36, 0x30], [0x34, 0x2D, 0x31], [0x70, 0x36, 0x30]),
     ([0x534E, 0x4E3A, 0x6E, 0x6F, 0x76, 0x61, 0x31, 0x33], [0x34, 0x2D, 0x32],
      [0x534E, 0x4E3A, 0x6E, 0x6F, 0x76, 0x61, 0x31, 0x33]),
     ([0x68, 0x75, 0x61, 0x77, 0x65, 0x69, 0x6E, 0x6F, 0x76, 0x61, 0x31, 0x33], [0x34,
      0x2D, 0x32], [0x68, 0x75, 0x61, 0x77, 0x65, 0x69, 0x6E, 0x6F, 0x76, 0x61, 0x31,
      0x33]),
     ([0x6E, 0x6F, 0x76, 0x61, 0x31, 0x33], [0x34, 0x2D, 0x32], [0x6E, 0x6F, 0x76,
      0x61, 0x31, 0x33]),
     ([0x534E, 0x4E3A, 0x6D, 0x61, 0x74, 0x65, 0x35, 0x30, 0x70, 0x72, 0x6F], [0x34,
      0x2D, 0x33], [0x534E, 0x4E3A, 0x6D, 0x61, 0x74, 0x65, 0x35, 0x30, 0x70, 0x72,
      0x6F]),
     ([0x68, 0x75, 0x61, 0x77, 0x65, 0x69, 0x6D, 0x61, 0x74, 0x65, 0x35, 0x30, 0x70,
      0x72, 0x6F], [0x34, 0x2D, 0x33], [0x68, 0x75, 0x61, 0x77, 0x65, 0x69, 0x6D, 0x61,
      0x74, 0x65, 0x35, 0x30, 0x70, 0x72, 0x6F]),
     ([0x6D, 0x61, 0x74, 0x65, 0x35, 0x30, 0x70, 0x72, 0x6F], [0x34, 0x2D, 0x33],
      [0x6D, 0x61, 0x74, 0x65, 0x35, 0x30, 0x70, 0x72, 0x6F]),
     ([0x534E, 0x4E3A, 0x6E, 0x6F, 0x76, 0x61, 0x31, 0x34, 0x70, 0x72, 0x6F], [0x34,
      0x2D, 0x34], [0x534E, 0x4E3A, 0x6E, 0x6F, 0x76, 0x61, 0x31, 0x34, 0x70, 0x72,
      0x6F]),
     ([0x68, 0x75, 0x61, 0x77, 0x65, 0x69, 0x6E, 0x6F, 0x76, 0x61, 0x31, 0x34, 0x70,
      0x72, 0x6F], [0x34, 0x2D, 0x34], [0x68, 0x75, 0x61, 0x77, 0x65, 0x69, 0x6E, 0x6F,
      0x76, 0x61, 0x31, 0x34, 0x70, 0x72, 0x6F]),
     ([0x6E, 0x6F, 0x76, 0x61, 0x31, 0x34, 0x70, 0x72, 0x6F], [0x34, 0x2D, 0x34],
      [0x6E, 0x6F, 0x76, 0x61, 0x31, 0x34, 0x70, 0x72, 0x6F]),
     ([0x534E, 0x4E3A, 0x6E, 0x6F, 0x76, 0x61, 0x31, 0x34, 0x75, 0x6C, 0x74, 0x72,
      0x61], [0x34, 0x2D, 0x35], [0x534E, 0x4E3A, 0x6E, 0x6F, 0x76, 0x61, 0x31, 0x34,
      0x75, 0x6C, 0x74, 0x72, 0x61]),
     ([0x68, 0x75, 0x61, 0x77, 0x65, 0x69, 0x6E, 0x6F, 0x76, 0x61, 0x31, 0x34, 0x75,
      0x6C, 0x74, 0x72, 0x61], [0x34, 0x2D, 0x35], [0x68, 0x75, 0x61, 0x77, 0x65, 0x69,
      0x6E, 0x6F, 0x76, 0x61, 0x31, 0x34, 0x75, 0x6C, 0x74, 0x72, 0x61]),
     ([0x6E, 0x6F, 0x76, 0x61, 0x31, 0x34, 0x75, 0x6C, 0x74, 0x72, 0x61], [0x34, 0x2D,
      0x35], [0x6E, 0x6F, 0x76, 0x61, 0x31, 0x34, 0x75, 0x6C, 0x74, 0x72, 0x61]),
     ([0x534E, 0x4E3A, 0x70, 0x37, 0x30, 0x70, 0x72, 0x6F], [0x35, 0x2D, 0x31],
      [0x534E, 0x4E3A, 0x70, 0x37, 0x30, 0x70, 0x72, 0x6F]),
     ([0x68, 0x75, 0x61, 0x77, 0x65, 0x69, 0x70, 0x37, 0x30, 0x70, 0x72, 0x6F], [0x35,
      0x2D, 0x31], [0x68, 0x75, 0x61, 0x77, 0x65, 0x69, 0x70, 0x37, 0x30, 0x70, 0x72,
      0x6F]),
     ([0x70, 0x37, 0x30, 0x70, 0x72, 0x6F], [0x35, 0x2D, 0x31], [0x70, 0x37, 0x30,
      0x70, 0x72, 0x6F]),
     ([0x534E, 0x4E3A, 0x6D, 0x61, 0x74, 0x65, 0x78, 0x35], [0x35, 0x2D, 0x32],
      [0x534E, 0x4E3A, 0x6D, 0x61, 0x74, 0x65, 0x78, 0x35]),
     ([0x68, 0x75, 0x61, 0x77, 0x65, 0x69, 0x6D, 0x61, 0x74, 0x65, 0x78, 0x35], [0x35,
      0x2D, 0x32], [0x68, 0x75, 0x61, 0x77, 0x65, 0x69, 0x6D, 0x61, 0x74, 0x65, 0x78,
      0x35]),
     ([0x6D, 0x61, 0x74, 0x65, 0x78, 0x35], [0x35, 0x2D, 0x32], [0x6D, 0x61, 0x74,
      0x65, 0x78, 0x35]),
     ([0x76, 0x69, 0x76, 0x6F, 0x73, 0x31, 0x39, 0x70, 0x72, 0x6F], [0x35, 0x2D, 0x33],
      [0x76, 0x69, 0x76, 0x6F, 0x20, 0x73, 0x31, 0x39, 0x20, 0x70, 0x72, 0x6F]),
     ([0x76, 0x69, 0x76, 0x6F, 0x73, 0x31, 0x39, 0x70, 0x72, 0x6F], [0x35, 0x2D, 0x33],
      [0x76, 0x69, 0x76, 0x6F, 0x73, 0x31, 0x39, 0x70, 0x72, 0x6F]),
     ([0x73, 0x31, 0x39, 0x70, 0x72, 0x6F], [0x35, 0x2D, 0x33], [0x73, 0x31, 0x39,
      0x70, 0x72, 0x6F]),
     ([0x76, 0x69, 0x76, 0x6F, 0x78, 0x31, 0x30, 0x30, 0x70, 0x72, 0x6F], [0x35, 0x2D,
      0x34], [0x76, 0x69, 0x76, 0x6F, 0x20, 0x78, 0x31, 0x30, 0x30, 0x20, 0x70, 0x72,
      0x6F]),
     ([0x76, 0x69, 0x76, 0x6F, 0x78, 0x31, 0x30, 0x30, 0x70, 0x72, 0x6F], [0x35, 0x2D,
      0x34], [0x76, 0x69, 0x76, 0x6F, 0x78, 0x31, 0x30, 0x30, 0x70, 0x72, 0x6F]),
     ([0x78, 0x31, 0x30, 0x30, 0x70, 0x72, 0x6F], [0x35, 0x2D, 0x34], [0x78, 0x31,
      0x30, 0x30, 0x70, 0x72, 0x6F]),
     ([0x6F, 0x70, 0x70, 0x6F, 0x66, 0x69, 0x6E, 0x64, 0x78, 0x37], [0x35, 0x2D, 0x35],
      [0x6F, 0x70, 0x70, 0x6F, 0x20, 0x66, 0x69, 0x6E, 0x64, 0x20, 0x78, 0x37]),
     ([0x6F, 0x70, 0x70, 0x6F, 0x66, 0x69, 0x6E, 0x64, 0x78, 0x37], [0x35, 0x2D, 0x35],
      [0x6F, 0x70, 0x70, 0x6F, 0x66, 0x69, 0x6E, 0x64, 0x78, 0x37]),
     ([0x66, 0x69, 0x6E, 0x64, 0x78, 0x37], [0x35, 0x2D, 0x35], [0x66, 0x69, 0x6E,
      0x64, 0x78, 0x37]),
     ([0x6F, 0x70, 0x70, 0x6F, 0x66, 0x69, 0x6E, 0x64, 0x6E, 0x33], [0x35, 0x2D, 0x36],
      [0x6F, 0x70, 0x70, 0x6F, 0x20, 0x66, 0x69, 0x6E, 0x64, 0x20, 0x6E, 0x33]),
     ([0x6F, 0x70, 0x70, 0x6F, 0x66, 0x69, 0x6E, 0x64, 0x6E, 0x33], [0x35, 0x2D, 0x36],
      [0x6F, 0x70, 0x70, 0x6F, 0x66, 0x69, 0x6E, 0x64, 0x6E, 0x33]),
     ([0x66, 0x69, 0x6E, 0x64, 0x6E, 0x33], [0x35, 0x2D, 0x36], [0x66, 0x69, 0x6E,
      0x64, 0x6E, 0x33])]"
  unfolding PHONE_GROUPS_value
  by (simp add: alias_pairs_def normalize_spec spec_normalize_def
      isspace_fast connector_fast lower_fast strip_fast)

lemma NORMALIZED_value:
  "NORMALIZED_MODEL_TO_GROUP =
    [
     ([0x5C0F, 0x7C73, 0x31, 0x35], ([0x31, 0x2D, 0x31], [0x5C0F, 0x7C73, 0x31, 0x35])),
     ([0x78, 0x69, 0x61, 0x6F, 0x6D, 0x69, 0x31, 0x35], ([0x31, 0x2D, 0x31], [0x78,
      0x69, 0x61, 0x6F, 0x6D, 0x69, 0x31, 0x35])),
     ([0x4E00, 0x52A0, 0x31, 0x33], ([0x31, 0x2D, 0x32], [0x4E00, 0x52A0, 0x31, 0x33])),
     ([0x6F, 0x6E, 0x65, 0x70, 0x6C, 0x75, 0x73, 0x31, 0x33], ([0x31, 0x2D, 0x32],
      [0x6F, 0x6E, 0x65, 0x70, 0x6C, 0x75, 0x73, 0x31, 0x33])),
     ([0x6F, 0x70, 0x70, 0x6F, 0x66, 0x69, 0x6E, 0x64, 0x78, 0x38], ([0x31, 0x2D,
      0x33], [0x6F, 0x70, 0x70, 0x6F, 0x20, 0x66, 0x69, 0x6E, 0x64, 0x20, 0x78, 0x38])),
     ([0x6F, 0x70, 0x70, 0x6F, 0x66, 0x69, 0x6E, 0x64, 0x78, 0x38, 0x70, 0x72, 0x6F],
      ([0x31, 0x2D, 0x33], [0x6F, 0x70, 0x70, 0x6F, 0x66, 0x69, 0x6E, 0x64, 0x78, 0x38,
      0x70, 0x72, 0x6F])),
     ([0x66, 0x69, 0x6E, 0x64, 0x78, 0x38, 0x70, 0x72, 0x6F], ([0x31, 0x2D, 0x33],
      [0x66, 0x69, 0x6E, 0x64, 0x78, 0x38, 0x70, 0x72, 0x6F])),
     ([0x76, 0x69, 0x76, 0x6F, 0x69, 0x71, 0x6F, 0x6F, 0x31, 0x33], ([0x31, 0x2D,
      0x34], [0x76, 0x69, 0x76, 0x6F, 0x69, 0x71, 0x6F, 0x6F, 0x31, 0x33])),
     ([0x69, 0x71, 0x6F, 0x6F, 0x31, 0x33], ([0x31, 0x2D, 0x34], [0x69, 0x71, 0x6F,
      0x6F, 0x31, 0x33])),
     ([0x4E09, 0x661F, 0x73, 0x32, 0x34], ([0x31, 0x2D, 0x35], [0x4E09, 0x661F, 0x73,
      0x32, 0x34])),
     ([0x73, 0x61, 0x6D, 0x73, 0x75, 0x6E, 0x67, 0x73, 0x32, 0x34], ([0x31, 0x2D,
      0x35], [0x73, 0x61, 0x6D, 0x73, 0x75, 0x6E, 0x67, 0x73, 0x32, 0x34])),
     ([0x76, 0x69, 0x76, 0x6F, 0x78, 0x32, 0x30, 0x30, 0x70, 0x72, 0x6F], ([0x32, 0x2D,
      0x31], [0x76, 0x69, 0x76, 0x6F, 0x78, 0x32, 0x30, 0x30, 0x70, 0x72, 0x6F])),
     ([0x78, 0x32, 0x30, 0x30, 0x70, 0x72, 0x6F], ([0x32, 0x2D, 0x31], [0x78, 0x32,
      0x30, 0x30, 0x70, 0x72, 0x6F])),
     ([0x82F9, 0x679C, 0x31, 0x35], ([0x32, 0x2D, 0x32], [0x82F9, 0x679C, 0x31, 0x35])),
     ([0x69, 0x70, 0x68, 0x6F, 0x6E, 0x65, 0x31, 0x35], ([0x32, 0x2D, 0x32], [0x69,
      0x70, 0x68, 0x6F, 0x6E, 0x65, 0x31, 0x35])),
     ([0x8363, 0x8000, 0x6D, 0x61, 0x67, 0x69, 0x63, 0x37], ([0x32, 0x2D, 0x33],
      [0x8363, 0x8000, 0x6D, 0x61, 0x67, 0x69, 0x63, 0x37])),
     ([0x68, 0x6F, 0x6E, 0x6F, 0x72, 0x6D, 0x61, 0x67, 0x69, 0x63, 0x37], ([0x32, 0x2D,
      0x33], [0x68, 0x6F, 0x6E, 0x6F, 0x72, 0x6D, 0x61, 0x67, 0x69, 0x63, 0x37])),
     ([0x6D, 0x61, 0x67, 0x69, 0x63, 0x37], ([0x32, 0x2D, 0x33], [0x6D, 0x61, 0x67,
      0x69, 0x63, 0x37])),
     ([0x7EA2, 0x7C73, 0x6B, 0x38, 0x30, 0x70, 0x72, 0x6F], ([0x32, 0x2D, 0x34],
      [0x7EA2, 0x7C73, 0x6B, 0x38, 0x30, 0x70, 0x72, 0x6F])),
     ([0x72, 0x65, 0x64, 0x6D, 0x69, 0x6B, 0x38, 0x30, 0x70, 0x72, 0x6F], ([0x32, 0x2D,
      0x34], [0x72, 0x65, 0x64, 0x6D, 0x69, 0x6B, 0x38, 0x30, 0x70, 0x72, 0x6F])),
     ([0x6B, 0x38, 0x30, 0x70, 0x72, 0x6F], ([0x32, 0x2D, 0x34], [0x6B, 0x38, 0x30,
      0x70, 0x72, 0x6F])),
     ([0x534E, 0x4E3A, 0x70, 0x34, 0x30, 0x70, 0x72, 0x6F, 0x70, 0x6C, 0x75, 0x73],
      ([0x32, 0x2D, 0x35], [0x534E, 0x4E3A, 0x70, 0x34, 0x30, 0x70, 0x72, 0x6F, 0x70,
      0x6C, 0x75, 0x73])),
     ([0x68, 0x75, 0x61, 0x77, 0x65, 0x69, 0x70, 0x34, 0x30, 0x70, 0x72, 0x6F, 0x70,
      0x6C, 0x75, 0x73], ([0x32, 0x2D, 0x35], [0x68, 0x75, 0x61, 0x77, 0x65, 0x69,
      0x70, 0x34, 0x30, 0x70, 0x72, 0x6F, 0x70, 0x6C, 0x75, 0x73])),
     ([0x70, 0x34, 0x30, 0x70, 0x72, 0x6F, 0x70, 0x6C, 0x75, 0x73], ([0x32, 0x2D,
      0x35], [0x70, 0x34, 0x30, 0x70, 0x72, 0x6F, 0x70, 0x6C, 0x75, 0x73])),
     ([0x534E, 0x4E3A, 0x6D, 0x61, 0x74, 0x65, 0x36, 0x30], ([0x33, 0x2D, 0x31],
      [0x534E, 0x4E3A, 0x6D, 0x61, 0x74, 0x65, 0x36, 0x30])),
     ([0x68, 0x75, 0x61, 0x77, 0x65, 0x69, 0x6D, 0x61, 0x74, 0x65, 0x36, 0x30], ([0x33,
      0x2D, 0x31], [0x68, 0x75, 0x61, 0x77, 0x65, 0x69, 0x6D, 0x61, 0x74, 0x65, 0x36,
      0x30])),
     ([0x6D, 0x61, 0x74, 0x65, 0x36, 0x30], ([0x33, 0x2D, 0x31], [0x6D, 0x61, 0x74,
      0x65, 0x36, 0x30])),
     ([0x4E00, 0x52A0, 0x61, 0x63, 0x65, 0x33], ([0x33, 0x2D, 0x32], [0x4E00, 0x52A0,
      0x61, 0x63, 0x65, 0x33])),
     ([0x6F, 0x6E, 0x65, 0x70, 0x6C, 0x75, 0x73, 0x61, 0x63, 0x65, 0x33], ([0x33, 0x2D,
      0x32], [0x6F, 0x6E, 0x65, 0x70, 0x6C, 0x75, 0x73, 0x61, 0x63, 0x65, 0x33])),
     ([0x61, 0x63, 0x65, 0x33], ([0x33, 0x2D, 0x32], [0x61, 0x63, 0x65, 0x33])),
     ([0x5C0F, 0x7C73, 0x31, 0x34], ([0x33, 0x2D, 0x33], [0x5C0F, 0x7C73, 0x31, 0x34])),
     ([0x78, 0x69, 0x61, 0x6F, 0x6D, 0x69, 0x31, 0x34], ([0x33, 0x2D, 0x33], [0x78,
      0x69, 0x61, 0x6F, 0x6D, 0x69, 0x31, 0x34])),
     ([0x8363, 0x8000, 0x6D, 0x61, 0x67, 0x69, 0x63, 0x36], ([0x33, 0x2D, 0x34],
      [0x8363, 0x8000, 0x6D, 0x61, 0x67, 0x69, 0x63, 0x36])),
     ([0x68, 0x6F, 0x6E, 0x6F, 0x72, 0x6D, 0x61, 0x67, 0x69, 0x63, 0x36], ([0x33, 0x2D,
      0x34], [0x68, 0x6F, 0x6E, 0x6F, 0x72, 0x6D, 0x61, 0x67, 0x69, 0x63, 0x36])),
     ([0x6D, 0x61, 0x67, 0x69, 0x63, 0x36], ([0x33, 0x2D, 0x34], [0x6D, 0x61, 0x67,
      0x69, 0x63, 0x36])),
     ([0x8363, 0x8000, 0x6D, 0x61, 0x67, 0x69, 0x63, 0x76, 0x73, 0x33], ([0x33, 0x2D,
      0x35], [0x8363, 0x8000, 0x6D, 0x61, 0x67, 0x69, 0x63, 0x76, 0x73, 0x33])),
     ([0x68, 0x6F, 0x6E, 0x6F, 0x72, 0x6D, 0x61, 0x67, 0x69, 0x63, 0x76, 0x73, 0x33],
      ([0x33, 0x2D, 0x35], [0x68, 0x6F, 0x6E, 0x6F, 0x72, 0x6D, 0x61, 0x67, 0x69, 0x63,
      0x76, 0x73, 0x33])),
     ([0x6D, 0x61, 0x67, 0x69, 0x63, 0x76, 0x73, 0x33], ([0x33, 0x2D, 0x35], [0x6D,
      0x61, 0x67, 0x69, 0x63, 0x76, 0x73, 0x33])),
     ([0x534E, 0x4E3A, 0x70, 0x36, 0x30], ([0x34, 0x2D, 0x31], [0x534E, 0x4E3A, 0x70,
      0x36, 0x30])),
     ([0x68, 0x75, 0x61, 0x77, 0x65, 0x69, 0x70, 0x36, 0x30], ([0x34, 0x2D, 0x31],
      [0x68, 0x75, 0x61, 0x77, 0x65, 0x69, 0x70, 0x36, 0x30])),
     ([0x70, 0x36, 0x30], ([0x34, 0x2D, 0x31], [0x70, 0x36, 0x30])),
     ([0x534E, 0x4E3A, 0x6E, 0x6F, 0x76, 0x61, 0x31, 0x33], ([0x34, 0x2D, 0x32],
      [0x534E, 0x4E3A, 0x6E, 0x6F, 0x76, 0x61, 0x31, 0x33])),
     ([0x68, 0x75, 0x61, 0x77, 0x65, 0x69, 0x6E, 0x6F, 0x76, 0x61, 0x31, 0x33], ([0x34,
      0x2D, 0x32], [0x68, 0x75, 0x61, 0x77, 0x65, 0x69, 0x6E, 0x6F, 0x76, 0x61, 0x31,
      0x33])),
     ([0x6E, 0x6F, 0x76, 0x61, 0x31, 0x33], ([0x34, 0x2D, 0x32], [0x6E, 0x6F, 0x76,
      0x61, 0x31, 0x33])),
     ([0x534E, 0x4E3A, 0x6D, 0x61, 0x74, 0x65, 0x35, 0x30, 0x70, 0x72, 0x6F], ([0x34,
      0x2D, 0x33], [0x534E, 0x4E3A, 0x6D, 0x61, 0x74, 0x65, 0x35, 0x30, 0x70, 0x72,
      0x6F])),
     ([0x68, 0x75, 0x61, 0x77, 0x65, 0x69, 0x6D, 0x61, 0x74, 0x65, 0x35, 0x30, 0x70,
      0x72, 0x6F], ([0x34, 0x2D, 0x33], [0x68, 0x75, 0x61, 0x77, 0x65, 0x69, 0x6D,
      0x61, 0x74, 0x65, 0x35, 0x30, 0x70, 0x72, 0x6F])),
     ([0x6D, 0x61, 0x74, 0x65, 0x35, 0x30, 0x70, 0x72, 0x6F], ([0x34, 0x2D, 0x33],
      [0x6D, 0x61, 0x74, 0x65, 0x35, 0x30, 0x70, 0x72, 0x6F])),
     ([0x534E, 0x4E3A, 0x6E, 0x6F, 0x76, 0x61, 0x31, 0x34, 0x70, 0x72, 0x6F], ([0x34,
      0x2D, 0x34], [0x534E, 0x4E3A, 0x6E, 0x6F, 0x76, 0x61, 0x31, 0x34, 0x70, 0x72,
      0x6F])),
     ([0x68, 0x75, 0x61, 0x77, 0x65, 0x69, 0x6E, 0x6F, 0x76, 0x61, 0x31, 0x34, 0x70,
      0x72, 0x6F], ([0x34, 0x2D, 0x34], [0x68, 0x75, 0x61, 0x77, 0x65, 0x69, 0x6E,
      0x6F, 0x76, 0x61, 0x31, 0x34, 0x70, 0x72, 0x6F])),
     ([0x6E, 0x6F, 0x76, 0x61, 0x31, 0x34, 0x70, 0x72, 0x6F], ([0x34, 0x2D, 0x34],
      [0x6E, 0x6F, 0x76, 0x61, 0x31, 0x34, 0x70, 0x72, 0x6F])),
     ([0x534E, 0x4E3A, 0x6E, 0x6F, 0x76, 0x61, 0x31, 0x34, 0x75, 0x6C, 0x74, 0x72,
      0x61], ([0x34, 0x2D, 0x35], [0x534E, 0x4E3A, 0x6E, 0x6F, 0x76, 0x61, 0x31, 0x34,
      0x75, 0x6C, 0x74, 0x72, 0x61])),
     ([0x68, 0x75, 0x61, 0x77, 0x65, 0x69, 0x6E, 0x6F, 0x76, 0x61, 0x31, 0x34, 0x75,
      0x6C, 0x74, 0x72, 0x61], ([0x34, 0x2D, 0x35], [0x68, 0x75, 0x61, 0x77, 0x65,
      0x69, 0x6E, 0x6F, 0x76, 0x61, 0x31, 0x34, 0x75, 0x6C, 0x74, 0x72, 0x61])),
     ([0x6E, 0x6F, 0x76, 0x61, 0x31, 0x34, 0x75, 0x6C, 0x74, 0x72, 0x61], ([0x34, 0x2D,
      0x35], [0x6E, 0x6F, 0x76, 0x61, 0x31, 0x34, 0x75, 0x6C, 0x74, 0x72, 0x61])),
     ([0x534E, 0x4E3A, 0x70, 0x37, 0x30, 0x70, 0x72, 0x6F], ([0x35, 0x2D, 0x31],
      [0x534E, 0x4E3A, 0x70, 0x37, 0x30, 0x70, 0x72, 0x6F])),
     ([0x68, 0x75, 0x61, 0x77, 0x65, 0x69, 0x70, 0x37, 0x30, 0x70, 0x72, 0x6F], ([0x35,
      0x2D, 0x31], [0x68, 0x75, 0x61, 0x77, 0x65, 0x69, 0x70, 0x37, 0x30, 0x70, 0x72,
      0x6F])),
     ([0x70, 0x37, 0x30, 0x70, 0x72, 0x6F], ([0x35, 0x2D, 0x31], [0x70, 0x37, 0x30,
      0x70, 0x72, 0x6F])),
     ([0x534E, 0x4E3A, 0x6D, 0x61, 0x74, 0x65, 0x78, 0x35], ([0x35, 0x2D, 0x32],
      [0x534E, 0x4E3A, 0x6D, 0x61, 0x74, 0x65, 0x78, 0x35])),
     ([0x68, 0x75, 0x61, 0x77, 0x65, 0x69, 0x6D, 0x61, 0x74, 0x65, 0x78, 0x35], ([0x35,
      0x2D, 0x32], [0x68, 0x75, 0x61, 0x77, 0x65, 0x69, 0x6D, 0x61, 0x74, 0x65, 0x78,
      0x35])),
     ([0x6D, 0x61, 0x74, 0x65, 0x78, 0x35], ([0x35, 0x2D, 0x32], [0x6D, 0x61, 0x74,
      0x65, 0x78, 0x35])),
     ([0x76, 0x69, 0x76, 0x6F, 0x73, 0x31, 0x39, 0x70, 0x72, 0x6F], ([0x35, 0x2D,
      0x33], [0x76, 0x69, 0x76, 0x6F, 0x73, 0x31, 0x39, 0x70, 0x72, 0x6F])),
     ([0x73, 0x31, 0x39, 0x70, 0x72, 0x6F], ([0x35, 0x2D, 0x33], [0x73, 0x31, 0x39,
      0x70, 0x72, 0x6F])),
     ([0x76, 0x69, 0x76, 0x6F, 0x78, 0x31, 0x30, 0x30, 0x70, 0x72, 0x6F], ([0x35, 0x2D,
      0x34], [0x76, 0x69, 0x76, 0x6F, 0x78, 0x31, 0x30, 0x30, 0x70, 0x72, 0x6F])),
     ([0x78, 0x31, 0x30, 0x30, 0x70, 0x72, 0x6F], ([0x35, 0x2D, 0x34], [0x78, 0x31,
      0x30, 0x30, 0x70, 0x72, 0x6F])),
     ([0x6F, 0x70, 0x70, 0x6F, 0x66, 0x69, 0x6E, 0x64, 0x78, 0x37], ([0x35, 0x2D,
      0x35], [0x6F, 0x70, 0x70, 0x6F, 0x66, 0x69, 0x6E, 0x64, 0x78, 0x37])),
     ([0x66, 0x69, 0x6E, 0x64, 0x78, 0x37], ([0x35, 0x2D, 0x35], [0x66, 0x69, 0x6E,
      0x64, 0x78, 0x37])),
     ([0x6F, 0x70, 0x70, 0x6F, 0x66, 0x69, 0x6E, 0x64, 0x6E, 0x33], ([0x35, 0x2D,
      0x36], [0x6F, 0x70, 0x70, 0x6F, 0x66, 0x69, 0x6E, 0x64, 0x6E, 0x33])),
     ([0x66, 0x69, 0x6E, 0x64, 0x6E, 0x33], ([0x35, 0x2D, 0x36], [0x66, 0x69, 0x6E,
      0x64, 0x6E, 0x33]))]"
  unfolding NORMALIZED_MODEL_TO_GROUP_def init_group_index_def init_groups_normalized
    alias_pairs_value
  by (simp add: dict_of_pairs_simps dict_set_hit dict_set_miss del: dict_set.simps(2))

lemma CANONICAL_value:
  "GROUP_TO_CANONICAL_MODEL =
    [
     ([0x31, 0x2D, 0x31], [0x5C0F, 0x7C73, 0x31, 0x35]),
     ([0x31, 0x2D, 0x32], [0x4E00, 0x52A0, 0x31, 0x33]),
     ([0x31, 0x2D, 0x33], [0x6F, 0x70, 0x70, 0x6F, 0x20, 0x66, 0x69, 0x6E, 0x64, 0x20,
      0x78, 0x38]),
     ([0x31, 0x2D, 0x34], [0x76, 0x69, 0x76, 0x6F, 0x20, 0x69, 0x71, 0x6F, 0x6F, 0x31,
      0x33]),
     ([0x31, 0x2D, 0x35], [0x4E09, 0x661F, 0x73, 0x32, 0x34]),
     ([0x32, 0x2D, 0x31], [0x76, 0x69, 0x76, 0x6F, 0x20, 0x78, 0x32, 0x30, 0x30, 0x20,
      0x70, 0x72, 0x6F]),
     ([0x32, 0x2D, 0x32], [0x82F9, 0x679C, 0x31, 0x35]),
     ([0x32, 0x2D, 0x33], [0x8363, 0x8000, 0x6D, 0x61, 0x67, 0x69, 0x63, 0x37]),
     ([0x32, 0x2D, 0x34], [0x7EA2, 0x7C73, 0x6B, 0x38, 0x30, 0x70, 0x72, 0x6F]),
     ([0x32, 0x2D, 0x35], [0x534E, 0x4E3A, 0x70, 0x34, 0x30, 0x70, 0x72, 0x6F, 0x70,
      0x6C, 0x75, 0x73]),
     ([0x33, 0x2D, 0x31], [0x534E, 0x4E3A, 0x6D, 0x61, 0x74, 0x65, 0x36, 0x30]),
     ([0x33, 0x2D, 0x32], [0x4E00, 0x52A0, 0x61, 0x63, 0x65, 0x33]),
     ([0x33, 0x2D, 0x33], [0x5C0F, 0x7C73, 0x31, 0x34]),
     ([0x33, 0x2D, 0x34], [0x8363, 0x8000, 0x6D, 0x61, 0x67, 0x69, 0x63, 0x36]),
     ([0x33, 0x2D, 0x35], [0x8363, 0x8000, 0x6D, 0x61, 0x67, 0x69, 0x63, 0x76, 0x73,
      0x33]),
     ([0x34, 0x2D, 0x31], [0x534E, 0x4E3A, 0x70, 0x36, 0x30]),
     ([0x34, 0x2D, 0x32], [0x534E, 0x4E3A, 0x6E, 0x6F, 0x76, 0x61, 0x31, 0x33]),
     ([0x34, 0x2D, 0x33], [0x534E, 0x4E3A, 0x6D, 0x61, 0x74, 0x65, 0x35, 0x30, 0x70,
      0x72, 0x6F]),
     ([0x34, 0x2D, 0x34], [0x534E, 0x4E3A, 0x6E, 0x6F, 0x76, 0x61, 0x31, 0x34, 0x70,
      0x72, 0x6F]),
     ([0x34, 0x2D, 0x35], [0x534E, 0x4E3A, 0x6E, 0x6F, 0x76, 0x61, 0x31, 0x34, 0x75,
      0x6C, 0x74, 0x72, 0x61]),
     ([0x35, 0x2D, 0x31], [0x534E, 0x4E3A, 0x70, 0x37, 0x30, 0x70, 0x72, 0x6F]),
     ([0x35, 0x2D, 0x32], [0x534E, 0x4E3A, 0x6D, 0x61, 0x74, 0x65, 0x78, 0x35]),
     ([0x35, 0x2D, 0x33], [0x76, 0x69, 0x76, 0x6F, 0x20, 0x73, 0x31, 0x39, 0x20, 0x70,
      0x72, 0x6F]),
     ([0x35, 0x2D, 0x34], [0x76, 0x69, 0x76, 0x6F, 0x20, 0x78, 0x31, 0x30, 0x30, 0x20,
      0x70, 0x72, 0x6F]),
     ([0x35, 0x2D, 0x35], [0x6F, 0x70, 0x70, 0x6F, 0x20, 0x66, 0x69, 0x6E, 0x64, 0x20,
      0x78, 0x37]),
     ([0x35, 0x2D, 0x36], [0x6F, 0x70, 0x70, 0x6F, 0x20, 0x66, 0x69, 0x6E, 0x64, 0x20,
      0x6E, 0x33])]"
  unfolding GROUP_TO_CANONICAL_MODEL_def init_group_index_def init_groups_canonical
    PHONE_GROUPS_value
  by (simp add: canonical_pairs_def dict_of_pairs_simps dict_set_hit dict_set_miss
      isspace_fast strip_fast del: dict_set.simps(2))

lemma find_group_for_model_in: "find_group_for_model text = find_group_in NORMALIZED_MODEL_TO_GROUP text"
  by (simp add: find_group_for_model_def)

lemma contains_either_Nil: "contains_either [] e"
  by (simp add: contains_either_def str_in_Nil)

lemma filter_contains_Nil: "filter (contains_either []) nm = nm"
  by (simp add: contains_either_Nil)

lemma first_longest_table:
  "first_longest NORMALIZED_MODEL_TO_GROUP =
     Some (asc ''huaweinova14ultra'', asc ''4-5'', asc ''huaweinova14ultra'')"
  unfolding NORMALIZED_value by (simp add: first_longest_Cons asc_def first_longest_def)

lemma map_of_table_Nil: "map_of NORMALIZED_MODEL_TO_GROUP [] = None"
  unfolding NORMALIZED_value by simp

lemma empty_key_group:
  "normalize_model_key text = [] \<Longrightarrow>
     find_group_for_model text = (Some (asc ''4-5''), Some (asc ''huaweinova14ultra''))"
  by (simp add: find_group_for_model_in find_group_in_spec map_of_table_Nil filter_contains_Nil
      first_longest_table)

lemma normalize_blank: "normalize_model_key (asc '' -_ '' @ [0x2014, 0x3000]) = []"
  by (simp add: normalize_spec spec_normalize_def asc_def lower_fast connector_def isspace_def)

lemma norm_oppo1: "spec_normalize (asc ''oppofindx8pro'') = asc ''oppofindx8pro''"
  by (simp add: spec_normalize_def asc_def lower_fast connector_fast)

lemma norm_oppo2: "spec_normalize (asc ''OPPO Find-X8 Pro'') = asc ''oppofindx8pro''"
  by (simp add: spec_normalize_def asc_def lower_fast connector_fast)

lemma map_of_oppo:
  "map_of NORMALIZED_MODEL_TO_GROUP (asc ''oppofindx8pro'') = Some (asc ''1-3'', asc ''oppofindx8pro'')"
  unfolding NORMALIZED_value by (simp add: asc_def)

lemma find_oppo: "find_group_for_model (asc ''oppofindx8pro'') = (Some (asc ''1-3''), Some (asc ''oppofindx8pro''))"
  by (simp add: find_group_for_model_in find_group_in_spec normalize_spec norm_oppo1 map_of_oppo)

lemma two_groups_index:
  "normalized_model_to_group (init_group_index two_groups) =
     [(asc ''x8'', asc ''7-1'', asc ''x8''), (asc ''findx8pro'', asc ''7-2'', asc ''findx8pro'')]"
  by (simp add: init_group_index_def two_groups_def asc_def Let_def normalize_spec
      spec_normalize_def lower_fast connector_fast isspace_fast strip_fast)

lemma two_groups_find:
  "(case map_of [(asc ''x8'', asc ''7-1'', asc ''x8''), (asc ''findx8pro'', asc ''7-2'', asc ''findx8pro'')]
           (normalize_model_key (asc ''OPPO FindX8Pro max'')) of
        Some (g, a) \<Rightarrow> (Some g, Some a)
      | None \<Rightarrow>
          (case first_longest (filter (contains_either (normalize_model_key (asc ''OPPO FindX8Pro max'')))
                 [(asc ''x8'', asc ''7-1'', asc ''x8''), (asc ''findx8pro'', asc ''7-2'', asc ''findx8pro'')]) of
             None \<Rightarrow> (None, None)
           | Some (ak, g, a) \<Rightarrow> (Some g, Some a))) = (Some (asc ''7-2''), Some (asc ''findx8pro''))"
  by (simp add: normalize_spec spec_normalize_def asc_def lower_fast connector_fast
      contains_either_def first_longest_Cons first_longest_def)


text \<open>
  C3. \<open>find_group_for_model\<close> is \<open>find_group_in\<close> on the global normalized map, and
  for every map and every text \<open>find_group_in\<close> returns: the entry of the normalized key
  when the map has that key; otherwise, among the entries whose normalized alias is
  contained in the key or contains the key, the first one of the greatest length of the
  normalized alias; \<open>(None, None)\<close> when no entry satisfies the containment.
\<close>

theorem find_group_for_model_resolves:
  "find_group_for_model text = find_group_in NORMALIZED_MODEL_TO_GROUP text \<and>
   find_group_in nm text =
     (case map_of nm (normalize_model_key text) of
        Some (g, a) \<Rightarrow> (Some g, Some a)
      | None \<Rightarrow>
          (case first_longest (filter (contains_either (normalize_model_key text)) nm) of
             None \<Rightarrow> (None, None)
           | Some (ak, g, a) \<Rightarrow> (Some g, Some a)))"
  using find_group_for_model_in [of "text"] find_group_in_spec [of nm "text"] by (rule conjI)

theorem find_group_for_model_resolves_witness:
  "find_group_in (normalized_model_to_group (init_group_index two_groups))
     (asc ''OPPO FindX8Pro max'') = (Some (asc ''7-2''), Some (asc ''findx8pro''))"
  using find_group_for_model_resolves
    [of "asc ''OPPO FindX8Pro max''" "normalized_model_to_group (init_group_index two_groups)"]
  unfolding two_groups_index two_groups_find by simp

lemma norm_kelvin: "spec_normalize (0x212A # asc ''80 PRO'') = asc ''k80pro''"
  by (simp add: spec_normalize_def lower_def do_lower_other lower_char_kelvin lower_char_keep
      lower_char_upper do_lower.simps(1) asc_def connector_fast)

lemma norm_k80pro: "spec_normalize (asc ''k80pro'') = asc ''k80pro''"
  by (simp add: spec_normalize_def asc_def lower_fast connector_fast)

lemma map_of_k80pro:
  "map_of NORMALIZED_MODEL_TO_GROUP (asc ''k80pro'') = Some (asc ''2-4'', asc ''k80pro'')"
  unfolding NORMALIZED_value by (simp add: asc_def)

lemma find_k80pro:
  "find_group_for_model (asc ''k80pro'') = (Some (asc ''2-4''), Some (asc ''k80pro''))"
  by (simp add: find_group_for_model_in find_group_in_spec normalize_spec norm_k80pro
      map_of_k80pro)

text \<open>
  C9. The key that \<open>find_group_for_model\<close> looks up is the specification's normalization
  of the text: the lowercase of the text, with every blank, hyphen, dash and underscore
  removed wherever it stands. Two texts with the same normalization get the same result.
\<close>

theorem find_group_for_model_insensitive:
  "normalize_model_key a = spec_normalize a \<and>
   (spec_normalize a = spec_normalize b \<longrightarrow> find_group_for_model a = find_group_for_model b)"
  by (simp add: find_group_for_model_def find_group_in_def normalize_spec)

theorem find_group_for_model_insensitive_witness:
  "spec_normalize (asc ''oppofindx8pro'') = spec_normalize (asc ''OPPO Find-X8 Pro'') \<and>
   find_group_for_model (asc ''OPPO Find-X8 Pro'') =
     (Some (asc ''1-3''), Some (asc ''oppofindx8pro'')) \<and>
   spec_normalize (asc ''k80pro'') = spec_normalize (0x212A # asc ''80 PRO'') \<and>
   find_group_for_model (0x212A # asc ''80 PRO'') = (Some (asc ''2-4''), Some (asc ''k80pro''))"
proof -
  have e: "spec_normalize (asc ''oppofindx8pro'') = spec_normalize (asc ''OPPO Find-X8 Pro'')"
    by (simp only: norm_oppo1 norm_oppo2)
  have k: "spec_normalize (asc ''k80pro'') = spec_normalize (0x212A # asc ''80 PRO'')"
    by (simp only: norm_k80pro norm_kelvin)
  from find_group_for_model_insensitive [of "asc ''oppofindx8pro''" "asc ''OPPO Find-X8 Pro''"]
    find_group_for_model_insensitive [of "asc ''k80pro''" "0x212A # asc ''80 PRO''"]
    find_oppo find_k80pro e k
  show ?thesis by simp
qed

text \<open>
  C10. A text whose normalization is empty does not get \<open>(None, None)\<close>: the map has no
  empty key, the empty key is contained in every normalized alias, and the result is
  the entry of the longest normalized alias of the map, \<open>huaweinova14ultra\<close> of group
  \<open>4-5\<close>.
\<close>

theorem find_group_for_model_empty_key:
  "normalize_model_key text = [] \<Longrightarrow>
     find_group_for_model text \<noteq> (None, None) \<and>
     first_longest NORMALIZED_MODEL_TO_GROUP =
       Some (asc ''huaweinova14ultra'', asc ''4-5'', asc ''huaweinova14ultra'') \<and>
     find_group_for_model text = (Some (asc ''4-5''), Some (asc ''huaweinova14ultra''))"
  by (simp add: empty_key_group first_longest_table)

theorem find_group_for_model_empty_key_witness:
  "normalize_model_key (asc '' -_ '' @ [0x2014, 0x3000]) = [] \<and>
   find_group_for_model (asc '' -_ '' @ [0x2014, 0x3000]) =
     (Some (asc ''4-5''), Some (asc ''huaweinova14ultra''))"
  using find_group_for_model_empty_key [OF normalize_blank] normalize_blank by simp

section \<open>Properties of the sanitizer\<close>

lemma sub_char_map: "sub_char cls [h] s = map (\<lambda>c. if cls c then h else c) s"
  by (induction s) (simp_all add: sub_char_def)

lemma collapse_in_run: "collapse_ws True s = collapse_ws False (dropWhile isspace s)"
  by (induction s) simp_all

lemma sub_runs_collapse: "sub_runs isspace [0x20] s = collapse_ws False s"
proof (induction isspace "[0x20::nat]" s rule: sub_runs.induct)
  case 1
  show ?case by simp
next
  case (2 c s)
  show ?case
  proof (cases "isspace c")
    case True
    then show ?thesis using 2(1) by (simp add: collapse_in_run)
  next
    case False
    then show ?thesis using 2(2) by simp
  qed
qed

lemma trimmed_bothI:
  assumes "s = pre @ r @ post" "list_all cls pre" "list_all cls post"
    "r = [] \<or> (\<not> cls (hd r) \<and> \<not> cls (last r))"
  shows "trimmed_both cls s r"
proof -
  have "length pre \<in> set [0..<Suc (length s)]" using assms(1) by simp
  moreover have "take (length r) (drop (length pre) s) = r \<and> list_all cls (take (length pre) s) \<and>
                  list_all cls (drop (length pre + length r) s)"
    using assms(1-3) by simp
  ultimately have "list_ex (\<lambda>i. take (length r) (drop i s) = r \<and> list_all cls (take i s) \<and>
                  list_all cls (drop (i + length r) s)) [0..<Suc (length s)]"
    unfolding list_ex_iff by blast
  then show ?thesis using assms(4) by (simp add: trimmed_both_def)
qed

lemma dropWhile_not_hd: "dropWhile P xs \<noteq> [] \<Longrightarrow> \<not> P (hd (dropWhile P xs))"
  by (simp add: hd_dropWhile)

lemma sub_edges_trimmed: "trimmed_both cls s (sub_edges cls s)"
proof -
  let ?d = "dropWhile cls s"
  let ?r = "rev (dropWhile cls (rev ?d))"
  let ?post = "rev (takeWhile cls (rev ?d))"
  have d: "?d = ?r @ ?post"
    by (metis rev_append rev_rev_ident takeWhile_dropWhile_id)
  have s: "s = takeWhile cls s @ ?r @ ?post" using d by (metis takeWhile_dropWhile_id)
  have 1: "list_all cls (takeWhile cls s)" by (simp add: list_all_iff) (meson set_takeWhileD)
  have 2: "list_all cls ?post" by (simp add: list_all_iff) (meson set_takeWhileD)
  have 3: "?r = [] \<or> (\<not> cls (hd ?r) \<and> \<not> cls (last ?r))"
  proof (cases "?r = []")
    case True then show ?thesis by simp
  next
    case False
    then have dn: "?d \<noteq> []" using d by (metis Nil_is_append_conv)
    have "hd ?r = hd ?d" using d False by (metis hd_append2)
    then have h: "\<not> cls (hd ?r)" using dn by (simp add: hd_dropWhile)
    have "last ?r = hd (dropWhile cls (rev ?d))" using False by (simp add: last_rev)
    then have l: "\<not> cls (last ?r)" using False by (simp add: hd_dropWhile)
    from h l show ?thesis by simp
  qed
  show ?thesis unfolding sub_edges_def by (rule trimmed_bothI [OF s 1 2 3])
qed

lemma rstrip_trimmed: "trimmed_right (\<lambda>c. c \<in> set chars) s (rstrip chars s)"
proof -
  let ?P = "\<lambda>c. c \<in> set chars"
  let ?r = "rev (dropWhile ?P (rev s))"
  let ?post = "rev (takeWhile ?P (rev s))"
  have s: "s = ?r @ ?post" by (metis rev_append rev_rev_ident takeWhile_dropWhile_id)
  have 1: "length ?r \<le> length s" using length_dropWhile_le [of ?P "rev s"] by simp
  have 2: "take (length ?r) s = ?r" using s by (metis append_eq_conv_conj)
  have "drop (length ?r) s = ?post" using s by (metis append_eq_conv_conj)
  moreover have "list_all ?P ?post" by (simp add: list_all_iff) (meson set_takeWhileD)
  ultimately have 3: "list_all ?P (drop (length ?r) s)" by simp
  have 4: "?r = [] \<or> \<not> ?P (last ?r)"
  proof (cases "?r = []")
    case True then show ?thesis by simp
  next
    case False
    have "last ?r = hd (dropWhile ?P (rev s))" using False by (simp add: last_rev)
    then show ?thesis using False hd_dropWhile [of ?P "rev s"] by auto
  qed
  show ?thesis unfolding rstrip_def trimmed_right_def using 1 2 3 4 by blast
qed

lemma sanitize_stages:
  "\<exists>t. trimmed_both connector
         (collapse_ws False (map (\<lambda>c. if INVALID_CHARS c then 0x2D else c) text0)) t \<and>
       trimmed_right (\<lambda>c. c \<in> set [0x20, 0x2E]) t (sanitize_component text0)"
  unfolding sanitize_component_def Let_def sub_char_map sub_runs_collapse
  using sub_edges_trimmed rstrip_trimmed by blast

lemma sanitize_empty: "sanitize_component [] = []"
  by (simp add: sanitize_component_def sub_char_def sub_edges_def rstrip_def)

lemma sanitize_bad_name: "sanitize_component (asc ''bad<name>/x'') = asc ''bad-name--x''"
  by (simp add: sanitize_component_def sub_char_def sub_edges_def rstrip_def asc_def
      INVALID_CHARS_def isspace_def connector_def)

lemma sanitize_edges_example: "sanitize_component (asc ''_ - a '' @ [10, 10] @ asc ''  b?-. . '') = asc ''a b--''"
  by (simp add: sanitize_component_def sub_char_def sub_edges_def rstrip_def asc_def
      INVALID_CHARS_def isspace_def connector_def)

text \<open>
  C8. For every text, \<open>sanitize_component\<close> is the result of these steps in this order:
  every character of the illegal class becomes a hyphen; every run of blanks becomes one
  space; the runs of blanks and connectors at the two ends are taken off; the spaces and
  periods at the end are taken off. The function has no failing branch, and the empty
  text gives the empty text.
\<close>

theorem sanitize_component_steps:
  "(\<exists>t. trimmed_both connector
          (collapse_ws False (map (\<lambda>c. if INVALID_CHARS c then 0x2D else c) text0)) t \<and>
        trimmed_right (\<lambda>c. c \<in> set [0x20, 0x2E]) t (sanitize_component text0)) \<and>
   sanitize_component [] = []"
  using sanitize_stages [of text0] sanitize_empty by blast

theorem sanitize_component_steps_witness:
  "(\<exists>t. trimmed_both connector
          (collapse_ws False
             (map (\<lambda>c. if INVALID_CHARS c then 0x2D else c) (asc ''bad<name>/x. ''))) t \<and>
        trimmed_right (\<lambda>c. c \<in> set [0x20, 0x2E]) t (asc ''bad-name--x'')) \<and>
   sanitize_component (asc ''bad<name>/x. '') = asc ''bad-name--x''"
proof -
  have v: "sanitize_component (asc ''bad<name>/x. '') = asc ''bad-name--x''"
    by (simp add: sanitize_component_def sub_char_def sub_edges_def rstrip_def asc_def
        INVALID_CHARS_def isspace_def connector_def)
  from sanitize_component_steps [of "asc ''bad<name>/x. ''"] show ?thesis
    unfolding v by simp
qed

end
